theory Spec2Isabelle
  imports Main "HOL-Library.Word"
begin

section \<open>GCP-Bucket-Loader: a shallow embedding of both program variants\<close>

text \<open>
  The repository holds two programs of one family:
  \<^item> the dual-direction loader (GCP-Bucket-Loader v2.1, \<^verbatim>\<open>src/unnamed/part_000\<close>), modelled
    under the source's own names (\<open>main\<close>, \<open>createContext\<close>, \<open>createClient\<close>, \<open>uploadFile\<close>,
    \<open>downloadFile\<close>);
  \<^item> the upload-only loader (GCP-Bucket-Uploader v1.0, \<^verbatim>\<open>src/main.go\<close>), modelled under the
    same names with the suffix \<open>_v1\<close>.

  Both are sequential wrappers around calls into the operating system and the storage
  SDK. A run is modelled as a function from the flags and the answers of the outside world
  to the list of calls and log lines the process makes, in order, together with the exit
  code and the local files it leaves behind. Go strings are byte strings (\<open>string\<close>), Go's
  \<open>int\<close>, \<open>uint\<close> and \<open>time.Duration\<close> are 64-bit words (a 64-bit platform), and
  \<open>log.Fatalln\<close> is \<open>os.Exit(1)\<close> after printing: it ends the process at once and runs no
  deferred call.
\<close>

subsection \<open>Values of the standard library and of the SDK\<close>

type_synonym bytes = "8 word list"

text \<open>\<open>time.Duration\<close>: a signed 64-bit count of nanoseconds.\<close>

type_synonym Duration = "64 word"

definition Second :: Duration where
  "Second = 1000000000"

text \<open>An \<open>error\<close> value; the two sentinels the code compares against, and any other.\<close>

datatype error = ErrBucketNotExist | ErrObjectNotExist | ErrOther string

fun Error :: "error \<Rightarrow> string" where
  "Error ErrBucketNotExist = ''storage: bucket doesn't exist''"
| "Error ErrObjectNotExist = ''storage: object doesn't exist''"
| "Error (ErrOther s) = s"

datatype ClientOption = WithoutAuthentication | WithCredentialsFile string

record ObjectAttrs =
  Size :: int
  CRC32C :: nat
  Generation :: int

record FileInfo =
  IsRegular :: bool
  FileSize :: int

text \<open>\<open>strconv.FormatInt(x, 10)\<close> and \<open>strconv.FormatUint(x, 10)\<close>: decimal digits.\<close>

definition digitChar :: "nat \<Rightarrow> char" where
  "digitChar d =
     (if d = 0 then CHR ''0'' else if d = 1 then CHR ''1'' else if d = 2 then CHR ''2''
      else if d = 3 then CHR ''3'' else if d = 4 then CHR ''4'' else if d = 5 then CHR ''5''
      else if d = 6 then CHR ''6'' else if d = 7 then CHR ''7'' else if d = 8 then CHR ''8''
      else CHR ''9'')"

fun FormatUint :: "nat \<Rightarrow> string" where
  "FormatUint n =
     (if n < 10 then [digitChar n] else FormatUint (n div 10) @ [digitChar (n mod 10)])"

declare FormatUint.simps [simp del]

definition FormatInt :: "int \<Rightarrow> string" where
  "FormatInt i = (if i < 0 then CHR ''-'' # FormatUint (nat (- i)) else FormatUint (nat i))"

text \<open>
  \<open>strings.EqualFold\<close> on byte strings. The program calls it with the constants
  \<open>upload\<close> and \<open>download\<close> only, whose letters have no case partner outside ASCII, so
  a byte of a multi-byte rune never matches and the comparison is the ASCII one, byte
  by byte.
\<close>

definition isUpper :: "char \<Rightarrow> bool" where
  "isUpper c = ((65::nat) \<le> of_char c \<and> of_char c \<le> (90::nat))"

definition toLower :: "char \<Rightarrow> char" where
  "toLower c = (if isUpper c then char_of (of_char c + (32::nat)) else c)"

definition foldEq :: "char \<Rightarrow> char \<Rightarrow> bool" where
  "foldEq a b = (a = b \<or> (isUpper a \<and> b = toLower a) \<or> (isUpper b \<and> a = toLower b))"

fun EqualFold :: "string \<Rightarrow> string \<Rightarrow> bool" where
  "EqualFold [] [] = True"
| "EqualFold (a # s) (b # t) = (foldEq a b \<and> EqualFold s t)"
| "EqualFold _ _ = False"

text \<open>
  \<open>io.Copy(dst, src)\<close> copies until end of file on \<open>src\<close> or until an error; it returns
  the number of bytes copied and the first error. The first argument is what goes wrong
  on this run, if anything: an error after so many bytes.
\<close>

definition io_Copy :: "(nat \<times> error) option \<Rightarrow> bytes \<Rightarrow> nat \<times> error option" where
  "io_Copy fault src =
     (case fault of
        None \<Rightarrow> (length src, None)
      | Some (k, e) \<Rightarrow> (min k (length src), Some e))"

subsection \<open>The outside world\<close>

text \<open>
  What the operating system and the storage service answer on this run. Each field is
  the result of one call the program can make, as a function of the arguments the
  program passes.
\<close>

record env =
  os_Open :: "string \<Rightarrow> error + bytes"
  os_Stat :: "string \<Rightarrow> error + FileInfo"
  os_Create :: "string \<Rightarrow> error option"
  storage_NewClient :: "Duration \<Rightarrow> ClientOption \<Rightarrow> error option"
  bkt_Attrs :: "string \<Rightarrow> error option"
  obj_Attrs :: "string \<Rightarrow> string \<Rightarrow> error + ObjectAttrs"
  obj_Attrs_after :: "string \<Rightarrow> string \<Rightarrow> error + ObjectAttrs"
  write_fault :: "(nat \<times> error) option"
  writer_Close :: "error option"
  obj_NewReader :: "string \<Rightarrow> string \<Rightarrow> error + bytes"
  read_fault :: "(nat \<times> error) option"
  reader_Close :: "error option"
  elapsed :: string
  files0 :: "string \<rightharpoonup> bytes"

subsection \<open>What a run does\<close>

datatype event =
    LogErr string
  | LogWarn string
  | LogInfo string
  | LogAlways string
  | WithTimeout Duration
  | NewClient ClientOption
  | Cancel
  | ClientClose
  | FileOpen string
  | FileStat string
  | FileCreate string
  | FileClose
  | BucketAttrs string
  | ObjectAttrsCall string string
  | NewWriter string string
  | SetContentType string
  | CopyToWriter nat
  | WriterClose
  | NewReader string string
  | CopyToFile nat
  | ReaderClose

record world =
  trace :: "event list"
  files :: "string \<rightharpoonup> bytes"

definition emit :: "event \<Rightarrow> world \<Rightarrow> world" where
  "emit e w = w\<lparr>trace := trace w @ [e]\<rparr>"

text \<open>
  The deferred calls of a function run when it returns, the last registered first; the
  list gives them in the order they run.
\<close>

definition deferred :: "event list \<Rightarrow> world \<Rightarrow> world" where
  "deferred ds w = w\<lparr>trace := trace w @ ds\<rparr>"

text \<open>
  A step either ends the process with an exit code (\<open>os.Exit\<close>) or returns a value and
  goes on.
\<close>

datatype 'a outcome = Exit nat world | Ret 'a world

definition andThen :: "'a outcome \<Rightarrow> ('a \<Rightarrow> world \<Rightarrow> 'b outcome) \<Rightarrow> 'b outcome" where
  "andThen m f = (case m of Exit c w \<Rightarrow> Exit c w | Ret x w \<Rightarrow> f x w)"

text \<open>\<open>LogErr.Fatalln\<close>: print on the error channel, then \<open>os.Exit(1)\<close>.\<close>

definition Fatalln :: "string \<Rightarrow> world \<Rightarrow> 'a outcome" where
  "Fatalln msg w = Exit 1 (emit (LogErr msg) w)"

text \<open>What is seen of a run from outside: its exit code, its calls and lines, its files.\<close>

fun exit_code :: "'a outcome \<Rightarrow> nat" where
  "exit_code (Exit c w) = c"
| "exit_code (Ret x w) = 0"

fun final :: "'a outcome \<Rightarrow> world" where
  "final (Exit c w) = w"
| "final (Ret x w) = w"

definition events :: "'a outcome \<Rightarrow> event list" where
  "events r = trace (final r)"

definition calls :: "event \<Rightarrow> 'a outcome \<Rightarrow> nat" where
  "calls ev r = count_list (events r) ev"

subsection \<open>The lines the programs print\<close>

text \<open>
  Each line is named once here, with the text the source gives it, and used under its
  name below. The time stamp and the prefix of the logger are left out.
\<close>

definition msg_hello :: string where
  "msg_hello = ''HELLO MSG: Welcome to GCP-Bucket-Loader v2.1 by EY!''"

definition msg_hello_v1 :: string where
  "msg_hello_v1 = ''HELLO MSG: Welcome to GCP-Bucket-Uploader v1.0 by EY!''"

definition msg_bye :: "string \<Rightarrow> string" where
  "msg_bye duration = ''BYE MSG: All done in '' @ duration @ ''s, bye!''"

definition msg_mandatory :: string where
  "msg_mandatory = ''FATAL ERROR: All mandatory parameters must be filled!''"

definition msg_key_mandatory :: string where
  "msg_key_mandatory = ''FATAL ERROR: Key parameter is mandatory when public is not set!''"

definition msg_key_discarded :: string where
  "msg_key_discarded = ''WARNING: Key parameter is unnessary and discarded when public is set!''"

definition msg_wrong_action :: string where
  "msg_wrong_action = ''FATAL ERROR: Wrong action parameter specified!''"

definition msg_client :: "error \<Rightarrow> string" where
  "msg_client err = ''FATAL ERROR: Cannot create new storage client! ('' @ Error err @ '')''"

definition msg_open :: "error \<Rightarrow> string" where
  "msg_open err = ''FATAL ERROR: Cannot open requested file! ('' @ Error err @ '')''"

definition msg_create :: "error \<Rightarrow> string" where
  "msg_create err = ''FATAL ERROR: Cannot create requested file! ('' @ Error err @ '')''"

definition msg_bucket_missing :: string where
  "msg_bucket_missing = ''FATAL ERROR: Bucket does not exist!''"

definition msg_bucket_info :: "error \<Rightarrow> string" where
  "msg_bucket_info err = ''FATAL ERROR: Cannot fetch bucket info! ('' @ Error err @ '')''"

definition msg_object_new :: string where
  "msg_object_new = ''WARNING: Object does not exist, going to create a new one.''"

definition msg_object_missing :: string where
  "msg_object_missing = ''FATAL ERROR: Object does not exist!''"

definition msg_object_info :: "error \<Rightarrow> string" where
  "msg_object_info err = ''FATAL ERROR: Cannot fetch object info! ('' @ Error err @ '')''"

definition msg_object_override :: "ObjectAttrs \<Rightarrow> string" where
  "msg_object_override objAttrs =
     ''WARNING: Object exists, going to override it! (Existing Object's SIZE: ''
       @ FormatInt (Size objAttrs) @ '', CRC32: '' @ FormatUint (CRC32C objAttrs)
       @ '', GENERATION: '' @ FormatInt (Generation objAttrs) @ '')''"

definition msg_object_exists :: "ObjectAttrs \<Rightarrow> string" where
  "msg_object_exists objAttrs =
     ''WARNING: Object exists! (Existing Object's SIZE: ''
       @ FormatInt (Size objAttrs) @ '', CRC32: '' @ FormatUint (CRC32C objAttrs)
       @ '', GENERATION: '' @ FormatInt (Generation objAttrs) @ '')''"

definition msg_file_override :: "int \<Rightarrow> string" where
  "msg_file_override size' =
     ''WARNING: File exists, going to override it! (Existing File's SIZE: ''
       @ FormatInt size' @ '')''"

definition msg_not_regular :: string where
  "msg_not_regular = ''WARNING: Path exists but not a regular file!''"

definition msg_copy_to_bucket :: "error \<Rightarrow> string" where
  "msg_copy_to_bucket err = ''FATAL ERROR: Cannot copy file to bucket! ('' @ Error err @ '')''"

definition msg_write_to_bucket :: "error \<Rightarrow> string" where
  "msg_write_to_bucket err = ''FATAL ERROR: Cannot write file to bucket! ('' @ Error err @ '')''"

definition msg_uploaded_attrs :: "ObjectAttrs \<Rightarrow> string" where
  "msg_uploaded_attrs objAttrsNew =
     ''SUCCESS: Object uploaded to GCP Bucket. (Uploaded Object's SIZE: ''
       @ FormatInt (Size objAttrsNew) @ '', CRC32: '' @ FormatUint (CRC32C objAttrsNew)
       @ '', GENERATION: '' @ FormatInt (Generation objAttrsNew) @ '')''"

definition msg_uploaded_bytes :: "int \<Rightarrow> string" where
  "msg_uploaded_bytes bytes' =
     ''SUCCESS: Object uploaded to GCP Bucket. (Written Bytes: '' @ FormatInt bytes' @ '')''"

definition msg_reader :: "error \<Rightarrow> string" where
  "msg_reader err = ''FATAL ERROR: Cannot create new reader! ('' @ Error err @ '')''"

definition msg_copy_from_bucket :: "error \<Rightarrow> string" where
  "msg_copy_from_bucket err = ''FATAL ERROR: Cannot copy object from bucket! ('' @ Error err @ '')''"

definition msg_read_from_bucket :: "error \<Rightarrow> string" where
  "msg_read_from_bucket err = ''FATAL ERROR: Cannot read object from bucket! ('' @ Error err @ '')''"

definition msg_downloaded_bytes :: "int \<Rightarrow> string" where
  "msg_downloaded_bytes bytes' =
     ''SUCCESS: Object downloaded from GCP Bucket. (Written Bytes: '' @ FormatInt bytes' @ '')''"

subsection \<open>The dual-direction loader\<close>

definition Upload :: string where
  "Upload = ''upload''"

definition Download :: string where
  "Download = ''download''"

record AppFlagStruct =
  ActionType :: string
  FilePath :: string
  BucketName :: string
  ObjectPath :: string
  KeyPath :: string
  ContentType :: string
  ExtraChecks :: bool
  PublicRequest :: bool
  TimeoutValue :: "64 word"

text \<open>
  \<open>storageUnderlyingDataStruct\<close>: the context is its timeout, the client is the option it
  was built with; \<open>cancel\<close> and \<open>client.Close\<close> show as events when they are called.
\<close>

record storageUnderlyingDataStruct =
  ctx :: Duration
  client :: ClientOption

text \<open>\<open>createContext\<close> (part_000, lines 129-143). The argument is Go's \<open>int\<close>.\<close>

definition createContext :: "64 word \<Rightarrow> world \<Rightarrow> Duration \<times> world" where
  "createContext timeoutValue w =
     (let timeoutDuration =
            (if sint timeoutValue \<le> 0 then Second * 60 else Second * timeoutValue)
      in (timeoutDuration, emit (WithTimeout timeoutDuration) w))"

text \<open>\<open>createClient\<close> (part_000, lines 145-161).\<close>

definition createClient :: "env \<Rightarrow> Duration \<Rightarrow> bool \<Rightarrow> string \<Rightarrow> world \<Rightarrow> ClientOption outcome" where
  "createClient e ctx' PublicRequest' keyPath w =
     (let clientOption =
            (if PublicRequest' then WithoutAuthentication else WithCredentialsFile keyPath);
          w1 = emit (NewClient clientOption) w
      in case storage_NewClient e ctx' clientOption of
           Some err \<Rightarrow> Fatalln (msg_client err) w1 | None \<Rightarrow> Ret clientOption w1)" text \<open>
  \<open>uploadFile\<close> (part_000, lines 163-231). \<open>appFlag\<close> is the global the function reads
  beside its arguments. The deferred calls are \<open>cancel\<close>, \<open>client.Close\<close>,
  \<open>file.Close\<close> and \<open>writer.Close\<close>, registered in this order.
\<close>

definition uploadFile ::
  "env \<Rightarrow> AppFlagStruct \<Rightarrow> storageUnderlyingDataStruct \<Rightarrow> string \<Rightarrow> string \<Rightarrow> string \<Rightarrow> string
     \<Rightarrow> world \<Rightarrow> unit outcome" where
  "uploadFile e appFlag storageUnderlyingDataObject filePath bucketName objectPath contentType w =
     andThen
       (case os_Open e filePath of
          Inl err \<Rightarrow> Fatalln (msg_open err) (emit (FileOpen filePath) w)
        | Inr content \<Rightarrow> Ret content (emit (FileOpen filePath) w))
     (\<lambda>content w1.
     andThen
       (if ExtraChecks appFlag then
          (case bkt_Attrs e bucketName of
             Some err \<Rightarrow>
               (if err = ErrBucketNotExist
                then Fatalln msg_bucket_missing (emit (BucketAttrs bucketName) w1)
                else Fatalln (msg_bucket_info err) (emit (BucketAttrs bucketName) w1))
           | None \<Rightarrow>
               (case obj_Attrs e bucketName objectPath of
                  Inl err \<Rightarrow>
                    (if err = ErrObjectNotExist
                     then Ret ()
                            (emit (LogWarn msg_object_new)
                               (emit (ObjectAttrsCall bucketName objectPath)
                                  (emit (BucketAttrs bucketName) w1)))
                     else Fatalln (msg_object_info err)
                            (emit (ObjectAttrsCall bucketName objectPath)
                               (emit (BucketAttrs bucketName) w1)))
                | Inr objAttrs \<Rightarrow>
                    Ret ()
                      (emit (LogWarn (msg_object_override objAttrs))
                         (emit (ObjectAttrsCall bucketName objectPath)
                            (emit (BucketAttrs bucketName) w1)))))
        else Ret () w1)
     (\<lambda>_ w2.
     andThen
       (let w3 = emit (NewWriter bucketName objectPath) w2;
            w4 = (if ContentType appFlag \<noteq> [] then emit (SetContentType contentType) w3 else w3);
            copied = io_Copy (write_fault e) content;
            w5 = emit (CopyToWriter (fst copied)) w4
        in case snd copied of
             Some err \<Rightarrow> Fatalln (msg_copy_to_bucket err) w5
           | None \<Rightarrow>
               (case writer_Close e of
                  Some err \<Rightarrow> Fatalln (msg_write_to_bucket err) (emit WriterClose w5)
                | None \<Rightarrow> Ret (fst copied) (emit WriterClose w5)))
     (\<lambda>bytes w6.
     andThen
       (if ExtraChecks appFlag then
          (case obj_Attrs_after e bucketName objectPath of
             Inl err \<Rightarrow>
               Fatalln (msg_object_info err) (emit (ObjectAttrsCall bucketName objectPath) w6)
           | Inr objAttrsNew \<Rightarrow>
               Ret ()
                 (emit (LogInfo (msg_uploaded_attrs objAttrsNew))
                    (emit (ObjectAttrsCall bucketName objectPath) w6)))
        else Ret () (emit (LogInfo (msg_uploaded_bytes (int bytes))) w6))
     (\<lambda>_ w7. Ret () (deferred [WriterClose, FileClose, ClientClose, Cancel] w7)))))"

text \<open>
  \<open>downloadFile\<close> (part_000, lines 233-300). The created file is empty; \<open>io.Copy\<close> then
  writes into it from its start. The deferred calls are \<open>cancel\<close>, \<open>client.Close\<close>,
  \<open>file.Close\<close> and \<open>reader.Close\<close>, registered in this order.
\<close>

definition downloadFile ::
  "env \<Rightarrow> AppFlagStruct \<Rightarrow> storageUnderlyingDataStruct \<Rightarrow> string \<Rightarrow> string \<Rightarrow> string
     \<Rightarrow> world \<Rightarrow> unit outcome" where
  "downloadFile e appFlag storageUnderlyingDataObject filePath bucketName objectPath w =
     andThen
       (case os_Stat e filePath of
          Inr info \<Rightarrow>
            (if IsRegular info
             then Ret ()
                    (emit (LogWarn (msg_file_override (FileSize info)))
                       (emit (FileStat filePath) w))
             else Ret () (emit (LogWarn msg_not_regular) (emit (FileStat filePath) w)))
        | Inl err \<Rightarrow> Ret () (emit (FileStat filePath) w))
     (\<lambda>_ w1.
     andThen
       (case os_Create e filePath of
          Some err \<Rightarrow> Fatalln (msg_create err) (emit (FileCreate filePath) w1)
        | None \<Rightarrow>
            Ret () (emit (FileCreate filePath) (w1\<lparr>files := (files w1)(filePath \<mapsto> [])\<rparr>)))
     (\<lambda>_ w2.
     andThen
       (if ExtraChecks appFlag then
          (case bkt_Attrs e bucketName of
             Some err \<Rightarrow>
               (if err = ErrBucketNotExist
                then Fatalln msg_bucket_missing (emit (BucketAttrs bucketName) w2)
                else Fatalln (msg_bucket_info err) (emit (BucketAttrs bucketName) w2))
           | None \<Rightarrow>
               (case obj_Attrs e bucketName objectPath of
                  Inl err \<Rightarrow>
                    (if err = ErrObjectNotExist
                     then Fatalln msg_object_missing
                            (emit (ObjectAttrsCall bucketName objectPath)
                               (emit (BucketAttrs bucketName) w2))
                     else Fatalln (msg_object_info err)
                            (emit (ObjectAttrsCall bucketName objectPath)
                               (emit (BucketAttrs bucketName) w2)))
                | Inr objAttrs \<Rightarrow>
                    Ret ()
                      (emit (LogWarn (msg_object_exists objAttrs))
                         (emit (ObjectAttrsCall bucketName objectPath)
                            (emit (BucketAttrs bucketName) w2)))))
        else Ret () w2)
     (\<lambda>_ w3.
     andThen
       (case obj_NewReader e bucketName objectPath of
          Inl err \<Rightarrow> Fatalln (msg_reader err) (emit (NewReader bucketName objectPath) w3)
        | Inr content \<Rightarrow> Ret content (emit (NewReader bucketName objectPath) w3))
     (\<lambda>content w4.
     andThen
       (let copied = io_Copy (read_fault e) content;
            w5 = emit (CopyToFile (fst copied))
                   (w4\<lparr>files := (files w4)(filePath \<mapsto> take (fst copied) content)\<rparr>)
        in case snd copied of
             Some err \<Rightarrow> Fatalln (msg_copy_from_bucket err) w5
           | None \<Rightarrow>
               (case reader_Close e of
                  Some err \<Rightarrow> Fatalln (msg_read_from_bucket err) (emit ReaderClose w5)
                | None \<Rightarrow> Ret (fst copied) (emit ReaderClose w5)))
     (\<lambda>bytes w6.
        Ret ()
          (deferred [ReaderClose, FileClose, ClientClose, Cancel]
             (emit (LogInfo (msg_downloaded_bytes (int bytes))) w6)))))))"

text \<open>
  \<open>main\<close> (part_000, lines 94-127). \<open>int(appFlag.TimeoutValue)\<close> keeps the 64 bits
  and reads them as signed. The process starts with an empty trace.
\<close>

definition main :: "env \<Rightarrow> AppFlagStruct \<Rightarrow> unit outcome" where
  "main e appFlag =
     (let w0 = emit (LogAlways msg_hello) \<lparr>trace = [], files = files0 e\<rparr>
      in if ActionType appFlag = [] \<or> FilePath appFlag = [] \<or> BucketName appFlag = []
            \<or> ObjectPath appFlag = []
         then Fatalln msg_mandatory w0
         else if \<not> PublicRequest appFlag \<and> KeyPath appFlag = []
         then Fatalln msg_key_mandatory w0
         else
           (let w1 =
                  (if PublicRequest appFlag \<and> KeyPath appFlag \<noteq> []
                   then emit (LogWarn msg_key_discarded) w0
                   else w0);
                made = createContext (TimeoutValue appFlag) w1
            in andThen
                 (createClient e (fst made) (PublicRequest appFlag) (KeyPath appFlag) (snd made))
               (\<lambda>cl w3.
               andThen
                 (if EqualFold (ActionType appFlag) Upload
                  then uploadFile e appFlag \<lparr>ctx = fst made, client = cl\<rparr> (FilePath appFlag)
                         (BucketName appFlag) (ObjectPath appFlag) (ContentType appFlag) w3
                  else if EqualFold (ActionType appFlag) Download
                  then downloadFile e appFlag \<lparr>ctx = fst made, client = cl\<rparr> (FilePath appFlag)
                         (BucketName appFlag) (ObjectPath appFlag) w3
                  else Fatalln msg_wrong_action w3)
               (\<lambda>_ w4. Ret () (emit (LogAlways (msg_bye (elapsed e))) w4)))))"

subsection \<open>The upload-only loader\<close>

record AppFlagStruct_v1 =
  FilePath_v1 :: string
  ContentType_v1 :: string
  BucketName_v1 :: string
  ObjectPath_v1 :: string
  KeyPath_v1 :: string
  ExtraChecks_v1 :: bool

text \<open>
  \<open>uploadFile\<close> of \<^verbatim>\<open>src/main.go\<close> (lines 91-162): it builds the context (60 seconds) and
  the client itself, then goes on as the dual-direction upload does.
\<close>

definition uploadFile_v1 ::
  "env \<Rightarrow> AppFlagStruct_v1 \<Rightarrow> string \<Rightarrow> string \<Rightarrow> string \<Rightarrow> string \<Rightarrow> string \<Rightarrow> world
     \<Rightarrow> unit outcome" where
  "uploadFile_v1 e appFlag filePath contentType bucketName objectPath keyPath w =
     andThen
       (let w' = emit (NewClient (WithCredentialsFile keyPath)) (emit (WithTimeout (Second * 60)) w)
        in case storage_NewClient e (Second * 60) (WithCredentialsFile keyPath) of
             Some err \<Rightarrow> Fatalln (msg_client err) w'
           | None \<Rightarrow> Ret () w')
     (\<lambda>_ w0.
     andThen
       (case os_Open e filePath of
          Inl err \<Rightarrow> Fatalln (msg_open err) (emit (FileOpen filePath) w0)
        | Inr content \<Rightarrow> Ret content (emit (FileOpen filePath) w0))
     (\<lambda>content w1.
     andThen
       (if ExtraChecks_v1 appFlag then
          (case bkt_Attrs e bucketName of
             Some err \<Rightarrow>
               (if err = ErrBucketNotExist
                then Fatalln msg_bucket_missing (emit (BucketAttrs bucketName) w1)
                else Fatalln (msg_bucket_info err) (emit (BucketAttrs bucketName) w1))
           | None \<Rightarrow>
               (case obj_Attrs e bucketName objectPath of
                  Inl err \<Rightarrow>
                    (if err = ErrObjectNotExist
                     then Ret ()
                            (emit (LogWarn msg_object_new)
                               (emit (ObjectAttrsCall bucketName objectPath)
                                  (emit (BucketAttrs bucketName) w1)))
                     else Fatalln (msg_object_info err)
                            (emit (ObjectAttrsCall bucketName objectPath)
                               (emit (BucketAttrs bucketName) w1)))
                | Inr objAttrs \<Rightarrow>
                    Ret ()
                      (emit (LogWarn (msg_object_override objAttrs))
                         (emit (ObjectAttrsCall bucketName objectPath)
                            (emit (BucketAttrs bucketName) w1)))))
        else Ret () w1)
     (\<lambda>_ w2.
     andThen
       (let w3 = emit (NewWriter bucketName objectPath) w2;
            w4 = (if ContentType_v1 appFlag \<noteq> [] then emit (SetContentType contentType) w3 else w3);
            copied = io_Copy (write_fault e) content;
            w5 = emit (CopyToWriter (fst copied)) w4
        in case snd copied of
             Some err \<Rightarrow> Fatalln (msg_copy_to_bucket err) w5
           | None \<Rightarrow>
               (case writer_Close e of
                  Some err \<Rightarrow> Fatalln (msg_write_to_bucket err) (emit WriterClose w5)
                | None \<Rightarrow> Ret (fst copied) (emit WriterClose w5)))
     (\<lambda>bytes w6.
     andThen
       (if ExtraChecks_v1 appFlag then
          (case obj_Attrs_after e bucketName objectPath of
             Inl err \<Rightarrow>
               Fatalln (msg_object_info err) (emit (ObjectAttrsCall bucketName objectPath) w6)
           | Inr objAttrsNew \<Rightarrow>
               Ret ()
                 (emit (LogInfo (msg_uploaded_attrs objAttrsNew))
                    (emit (ObjectAttrsCall bucketName objectPath) w6)))
        else Ret () (emit (LogInfo (msg_uploaded_bytes (int bytes))) w6))
     (\<lambda>_ w7. Ret () (deferred [WriterClose, FileClose, ClientClose, Cancel] w7))))))"

text \<open>\<open>main\<close> of \<^verbatim>\<open>src/main.go\<close> (lines 73-89).\<close>

definition main_v1 :: "env \<Rightarrow> AppFlagStruct_v1 \<Rightarrow> unit outcome" where
  "main_v1 e appFlag =
     (let w0 = emit (LogAlways msg_hello_v1) \<lparr>trace = [], files = files0 e\<rparr>
      in if FilePath_v1 appFlag = [] \<or> BucketName_v1 appFlag = [] \<or> ObjectPath_v1 appFlag = []
            \<or> KeyPath_v1 appFlag = []
         then Fatalln msg_mandatory w0
         else
           andThen
             (uploadFile_v1 e appFlag (FilePath_v1 appFlag) (ContentType_v1 appFlag)
                (BucketName_v1 appFlag) (ObjectPath_v1 appFlag) (KeyPath_v1 appFlag) w0)
           (\<lambda>_ w1. Ret () (emit (LogAlways (msg_bye (elapsed e))) w1)))"

subsection \<open>A concrete world and concrete flags\<close>

text \<open>
  The world of the specification's first scenario: the local file holds the two bytes
  \<open>hi\<close>, every call succeeds, the remote object does not exist yet and exists with size 2
  once it has been written.
\<close>

definition env_ok :: env where
  "env_ok =
     \<lparr>os_Open = (\<lambda>p. Inr [104, 105]),
      os_Stat = (\<lambda>p. Inl (ErrOther ''no such file or directory'')),
      os_Create = (\<lambda>p. None),
      storage_NewClient = (\<lambda>d opt. None),
      bkt_Attrs = (\<lambda>b. None),
      obj_Attrs = (\<lambda>b ob. Inl ErrObjectNotExist),
      obj_Attrs_after = (\<lambda>b ob. Inr \<lparr>Size = 2, CRC32C = 0, Generation = 1\<rparr>),
      write_fault = None,
      writer_Close = None,
      obj_NewReader = (\<lambda>b ob. Inl ErrObjectNotExist),
      read_fault = None,
      reader_Close = None,
      elapsed = ''0.1'',
      files0 = Map.empty\<rparr>"

definition flags_upload :: AppFlagStruct where
  "flags_upload =
     \<lparr>ActionType = ''upload'', FilePath = ''a.txt'', BucketName = ''b'', ObjectPath = ''o'',
      KeyPath = ''k.json'', ContentType = ''text/plain'', ExtraChecks = False,
      PublicRequest = False, TimeoutValue = 0\<rparr>"

definition flags_v1 :: AppFlagStruct_v1 where
  "flags_v1 =
     \<lparr>FilePath_v1 = ''a.txt'', ContentType_v1 = ''text/plain'', BucketName_v1 = ''b'',
      ObjectPath_v1 = ''o'', KeyPath_v1 = ''k.json'', ExtraChecks_v1 = False\<rparr>"

subsection \<open>Vocabulary of the properties\<close>

text \<open>The world of a process that has done nothing yet, with no local file.\<close>

definition world0 :: world where
  "world0 = \<lparr>trace = [], files = Map.empty\<rparr>"

text \<open>The concrete world, but the local file cannot be opened.\<close>

definition env_unreadable :: env where
  "env_unreadable = env_ok\<lparr>os_Open := \<lambda>p. Inl (ErrOther ''permission denied'')\<rparr>"

text \<open>
  The specification's last scenario: a download of an object that is not there, into a
  file that exists and holds three bytes.
\<close>

definition flags_download :: AppFlagStruct where
  "flags_download =
     \<lparr>ActionType = ''download'', FilePath = ''out.txt'', BucketName = ''b'',
      ObjectPath = ''missing'', KeyPath = ''k.json'', ContentType = [], ExtraChecks = False,
      PublicRequest = False, TimeoutValue = 0\<rparr>"

definition env_old_file :: env where
  "env_old_file = env_ok\<lparr>files0 := [''out.txt'' \<mapsto> [1, 2, 3]]\<rparr>"

text \<open>
  The checks of \<open>main\<close> that come before the session: every mandatory flag is given, and
  a key is given unless the request is public.
\<close>

definition checks_pass :: "AppFlagStruct \<Rightarrow> bool" where
  "checks_pass a =
     (ActionType a \<noteq> [] \<and> FilePath a \<noteq> [] \<and> BucketName a \<noteq> [] \<and> ObjectPath a \<noteq> []
      \<and> (PublicRequest a \<or> KeyPath a \<noteq> []))"

text \<open>The duration \<open>main\<close> asks \<open>createContext\<close> for, and the option it builds the client with.\<close>

definition deadline :: "AppFlagStruct \<Rightarrow> Duration" where
  "deadline a = fst (createContext (TimeoutValue a) world0)"

definition option_of :: "AppFlagStruct \<Rightarrow> ClientOption" where
  "option_of a = (if PublicRequest a then WithoutAuthentication else WithCredentialsFile (KeyPath a))"

text \<open>The world when \<open>main\<close> has built context and client and looks at the action.\<close>

definition at_dispatch :: "env \<Rightarrow> AppFlagStruct \<Rightarrow> world" where
  "at_dispatch e a =
     \<lparr>trace =
        LogAlways msg_hello
          # (if PublicRequest a \<and> KeyPath a \<noteq> [] then [LogWarn msg_key_discarded] else [])
          @ [WithTimeout (deadline a), NewClient (option_of a)],
      files = files0 e\<rparr>"

text \<open>The end of \<open>main\<close> after the transfer has returned: the closing line, exit code 0.\<close>

definition finish :: "env \<Rightarrow> unit outcome \<Rightarrow> unit outcome" where
  "finish e r = andThen r (\<lambda>_ w. Ret () (emit (LogAlways (msg_bye (elapsed e))) w))"

fun isNewClient :: "event \<Rightarrow> bool" where
  "isNewClient (NewClient opt) = True"
| "isNewClient _ = False"

text \<open>The events on the remote write stream up to the last byte written.\<close>

fun writerEvent :: "event \<Rightarrow> bool" where
  "writerEvent (NewWriter b ob) = True"
| "writerEvent (SetContentType c) = True"
| "writerEvent (CopyToWriter n) = True"
| "writerEvent _ = False"

text \<open>
  What holds of a step whichever way it ends: \<open>E\<close> of the exit code and the world when it
  ends the process, \<open>Q\<close> of the value and the world when it returns.
\<close>

definition wp :: "'a outcome \<Rightarrow> (nat \<Rightarrow> world \<Rightarrow> bool) \<Rightarrow> ('a \<Rightarrow> world \<Rightarrow> bool) \<Rightarrow> bool" where
  "wp m E Q = (case m of Exit c w \<Rightarrow> E c w | Ret x w \<Rightarrow> Q x w)"

text \<open>
  How often a run has called \<open>cancel\<close>, \<open>client.Close\<close> and \<open>file.Close\<close>, in this order.
\<close>

definition releases :: "event list \<Rightarrow> nat \<times> nat \<times> nat" where
  "releases es = (count_list es Cancel, count_list es ClientClose, count_list es FileClose)"


text \<open>
  Reading a decimal numeral: the value of an ASCII digit, and the number that a string of
  digits denotes, most significant digit first.
\<close>

definition digitValue :: "char \<Rightarrow> nat" where
  "digitValue c = of_char c - 48"

definition decimalValue :: "string \<Rightarrow> nat" where
  "decimalValue ds = foldl (\<lambda>v c. 10 * v + digitValue c) 0 ds"

text \<open>A run on a readable local file of thirteen bytes.\<close>

definition env_13 :: env where
  "env_13 = env_ok\<lparr>os_Open := \<lambda>p. Inr [72, 101, 108, 108, 111, 44, 32, 119, 111, 114, 108, 100, 10],
                    obj_Attrs_after := \<lambda>b ob. Inr \<lparr>Size = 13, CRC32C = 0, Generation = 1\<rparr>\<rparr>"

section \<open>Basic facts\<close>

lemma andThen_Exit [simp]: "andThen (Exit c w) f = Exit c w"
  by (simp add: andThen_def)

lemma andThen_Ret [simp]: "andThen (Ret x w) f = f x w"
  by (simp add: andThen_def)

lemma andThen_Fatalln [simp]: "andThen (Fatalln msg w) f = Fatalln msg w"
  by (simp add: Fatalln_def)

lemma trace_emit [simp]: "trace (emit ev w) = trace w @ [ev]"
  by (simp add: emit_def)

lemma files_emit [simp]: "files (emit ev w) = files w"
  by (simp add: emit_def)

lemma trace_deferred [simp]: "trace (deferred ds w) = trace w @ ds"
  by (simp add: deferred_def)

lemma files_deferred [simp]: "files (deferred ds w) = files w"
  by (simp add: deferred_def)

lemma exit_code_Fatalln [simp]: "exit_code (Fatalln msg w) = 1"
  by (simp add: Fatalln_def)

lemma final_Fatalln [simp]: "final (Fatalln msg w) = emit (LogErr msg) w"
  by (simp add: Fatalln_def)

lemma events_Fatalln [simp]: "events (Fatalln msg w) = trace w @ [LogErr msg]"
  by (simp add: events_def)

lemma events_Ret [simp]: "events (Ret x w) = trace w"
  by (simp add: events_def)

lemma events_Exit [simp]: "events (Exit c w) = trace w"
  by (simp add: events_def)

lemma sint_Second_mult:
  fixes t :: "64 word"
  assumes "0 < sint t" and "sint t \<le> 9223372036"
  shows "sint (Second * t) = 1000000000 * sint t"
  using assms by (simp add: Second_def sint_word_ariths signed_take_bit_int_eq_self_iff)

lemma foldEq_lower: "\<not> isUpper b \<Longrightarrow> foldEq a b = (toLower a = b)"
  by (auto simp: foldEq_def toLower_def)

lemma EqualFold_lower:
  "\<forall>b \<in> set t. \<not> isUpper b \<Longrightarrow> EqualFold s t = (map toLower s = t)"
  by (induction s t rule: EqualFold.induct) (auto simp: foldEq_lower)

lemma EqualFold_Upload: "EqualFold s Upload = (map toLower s = ''upload'')"
  by (rule trans [OF EqualFold_lower]) (simp_all add: Upload_def isUpper_def)

lemma EqualFold_Download: "EqualFold s Download = (map toLower s = ''download'')"
  by (rule trans [OF EqualFold_lower]) (simp_all add: Download_def isUpper_def)

section \<open>The paths of main\<close>

lemma deadline_eq:
  "deadline a = (if sint (TimeoutValue a) \<le> 0 then Second * 60 else Second * TimeoutValue a)"
  by (simp add: deadline_def createContext_def Let_def)

lemma main_checks_fail:
  "\<not> checks_pass a \<Longrightarrow>
     main e a =
       Fatalln
         (if ActionType a = [] \<or> FilePath a = [] \<or> BucketName a = [] \<or> ObjectPath a = []
          then msg_mandatory else msg_key_mandatory)
         \<lparr>trace = [LogAlways msg_hello], files = files0 e\<rparr>"
  by (auto simp: main_def checks_pass_def Let_def emit_def)

lemma main_client_fails:
  assumes "checks_pass a" and "storage_NewClient e (deadline a) (option_of a) = Some err"
  shows "main e a = Fatalln (msg_client err) (at_dispatch e a)"
  using assms
  by (auto simp: main_def checks_pass_def Let_def createContext_def createClient_def
      at_dispatch_def deadline_def option_of_def emit_def)

lemma main_dispatch:
  assumes "checks_pass a" and "storage_NewClient e (deadline a) (option_of a) = None"
  shows "main e a =
     finish e
       (if EqualFold (ActionType a) Upload
        then uploadFile e a \<lparr>ctx = deadline a, client = option_of a\<rparr> (FilePath a)
               (BucketName a) (ObjectPath a) (ContentType a) (at_dispatch e a)
        else if EqualFold (ActionType a) Download
        then downloadFile e a \<lparr>ctx = deadline a, client = option_of a\<rparr> (FilePath a)
               (BucketName a) (ObjectPath a) (at_dispatch e a)
        else Fatalln msg_wrong_action (at_dispatch e a))"
  using assms
  by (auto simp: main_def checks_pass_def Let_def createContext_def createClient_def finish_def
      at_dispatch_def deadline_def option_of_def emit_def)

lemma main_v1_run:
  "FilePath_v1 b \<noteq> [] \<Longrightarrow> BucketName_v1 b \<noteq> [] \<Longrightarrow> ObjectPath_v1 b \<noteq> [] \<Longrightarrow> KeyPath_v1 b \<noteq> [] \<Longrightarrow>
     main_v1 e b =
       finish e
         (uploadFile_v1 e b (FilePath_v1 b) (ContentType_v1 b) (BucketName_v1 b) (ObjectPath_v1 b)
            (KeyPath_v1 b) \<lparr>trace = [LogAlways msg_hello_v1], files = files0 e\<rparr>)"
  by (simp add: main_v1_def Let_def finish_def emit_def)

lemma main_v1_checks_fail:
  "FilePath_v1 b = [] \<or> BucketName_v1 b = [] \<or> ObjectPath_v1 b = [] \<or> KeyPath_v1 b = [] \<Longrightarrow>
     main_v1 e b = Fatalln msg_mandatory \<lparr>trace = [LogAlways msg_hello_v1], files = files0 e\<rparr>"
  by (auto simp: main_v1_def Let_def emit_def)

lemma finish_Fatalln [simp]: "finish e (Fatalln msg w) = Fatalln msg w"
  by (simp add: finish_def)

lemma finish_Exit [simp]: "finish e (Exit c w) = Exit c w"
  by (simp add: finish_def)

lemma finish_Ret [simp]: "finish e (Ret x w) = Ret () (emit (LogAlways (msg_bye (elapsed e))) w)"
  by (simp add: finish_def)

lemma exit_code_finish [simp]: "exit_code (finish e r) = exit_code r"
  by (cases r) (simp_all add: finish_def)

lemma events_finish:
  "events (finish e r) =
     events r @ (case r of Exit c w \<Rightarrow> [] | Ret x w \<Rightarrow> [LogAlways (msg_bye (elapsed e))])"
  by (cases r) (simp_all add: finish_def)

lemma filter_events_finish:
  "\<not> P (LogAlways (msg_bye (elapsed e))) \<Longrightarrow> filter P (events (finish e r)) = filter P (events r)"
  by (cases r) (simp_all add: finish_def)

lemma count_events_finish:
  "ev \<noteq> LogAlways (msg_bye (elapsed e)) \<Longrightarrow>
     count_list (events (finish e r)) ev = count_list (events r) ev"
  by (cases r) (simp_all add: finish_def)

lemma files_finish [simp]: "files (final (finish e r)) = files (final r)"
  by (cases r) (simp_all add: finish_def)


section \<open>The transfer functions, event by event\<close>

lemma wp_Exit [simp]: "wp (Exit c w) E Q = E c w"
  by (simp add: wp_def)

lemma wp_Ret [simp]: "wp (Ret x w) E Q = Q x w"
  by (simp add: wp_def)

lemma wp_Fatalln [simp]: "wp (Fatalln msg w) E Q = E 1 (emit (LogErr msg) w)"
  by (simp add: Fatalln_def)

lemma wp_andThen: "wp (andThen m f) E Q = wp m E (\<lambda>x w. wp (f x w) E Q)"
  by (cases m) simp_all

lemma wp_if: "wp (if b then m else n) E Q = ((b \<longrightarrow> wp m E Q) \<and> (\<not> b \<longrightarrow> wp n E Q))"
  by simp

lemma wp_case_sum:
  "wp (case s of Inl a \<Rightarrow> f a | Inr b \<Rightarrow> g b) E Q
     = ((\<forall>a. s = Inl a \<longrightarrow> wp (f a) E Q) \<and> (\<forall>b. s = Inr b \<longrightarrow> wp (g b) E Q))"
  by (cases s) simp_all

lemma wp_case_option:
  "wp (case s of None \<Rightarrow> m | Some a \<Rightarrow> f a) E Q
     = ((s = None \<longrightarrow> wp m E Q) \<and> (\<forall>a. s = Some a \<longrightarrow> wp (f a) E Q))"
  by (cases s) simp_all

lemma wp_Let: "wp (let x = v in f x) E Q = wp (f v) E Q"
  by simp

lemmas wp_rules = wp_andThen wp_if wp_case_sum wp_case_option wp_Let

lemma wpD:
  "wp m E Q \<Longrightarrow> (exit_code m \<noteq> 0 \<longrightarrow> E (exit_code m) (final m)) \<and> (\<forall>x w. m = Ret x w \<longrightarrow> Q x w)"
  by (cases m) auto


lemma wp_outcome: "wp m E Q \<Longrightarrow> (case m of Exit c w \<Rightarrow> E c w | Ret x w \<Rightarrow> Q x w)"
  by (simp add: wp_def)

lemma io_Copy_ok: "snd (io_Copy fl src) = None \<Longrightarrow> fst (io_Copy fl src) = length src"
  by (auto simp: io_Copy_def split: option.splits prod.splits)

subsection \<open>Release calls\<close>

lemma uploadFile_releases_wp:
  "wp (uploadFile e a s f b ob c w)
     (\<lambda>code w'. code = 1 \<and> count_list (trace w') Cancel = count_list (trace w) Cancel
        \<and> count_list (trace w') ClientClose = count_list (trace w) ClientClose
        \<and> count_list (trace w') FileClose = count_list (trace w) FileClose)
     (\<lambda>_ w'. count_list (trace w') Cancel = count_list (trace w) Cancel + 1
        \<and> count_list (trace w') ClientClose = count_list (trace w) ClientClose + 1
        \<and> count_list (trace w') FileClose = count_list (trace w) FileClose + 1)"
  by (simp add: uploadFile_def wp_rules)

lemma downloadFile_releases_wp:
  "wp (downloadFile e a s f b ob w)
     (\<lambda>code w'. code = 1 \<and> count_list (trace w') Cancel = count_list (trace w) Cancel
        \<and> count_list (trace w') ClientClose = count_list (trace w) ClientClose
        \<and> count_list (trace w') FileClose = count_list (trace w) FileClose)
     (\<lambda>_ w'. count_list (trace w') Cancel = count_list (trace w) Cancel + 1
        \<and> count_list (trace w') ClientClose = count_list (trace w) ClientClose + 1
        \<and> count_list (trace w') FileClose = count_list (trace w) FileClose + 1)"
  by (simp add: downloadFile_def wp_rules)

lemma uploadFile_v1_releases_wp:
  "wp (uploadFile_v1 e a f c b ob k w)
     (\<lambda>code w'. code = 1 \<and> count_list (trace w') Cancel = count_list (trace w) Cancel
        \<and> count_list (trace w') ClientClose = count_list (trace w) ClientClose
        \<and> count_list (trace w') FileClose = count_list (trace w) FileClose)
     (\<lambda>_ w'. count_list (trace w') Cancel = count_list (trace w) Cancel + 1
        \<and> count_list (trace w') ClientClose = count_list (trace w) ClientClose + 1
        \<and> count_list (trace w') FileClose = count_list (trace w) FileClose + 1)"
  by (simp add: uploadFile_v1_def wp_rules)

lemma releases_of_wp:
  assumes "wp r
     (\<lambda>code w'. code = 1 \<and> count_list (trace w') Cancel = count_list (trace w) Cancel
        \<and> count_list (trace w') ClientClose = count_list (trace w) ClientClose
        \<and> count_list (trace w') FileClose = count_list (trace w) FileClose)
     (\<lambda>_ w'. count_list (trace w') Cancel = count_list (trace w) Cancel + 1
        \<and> count_list (trace w') ClientClose = count_list (trace w) ClientClose + 1
        \<and> count_list (trace w') FileClose = count_list (trace w) FileClose + 1)"
  shows "releases (events r)
     = (if exit_code r = 0
        then (count_list (trace w) Cancel + 1, count_list (trace w) ClientClose + 1,
              count_list (trace w) FileClose + 1)
        else releases (trace w))"
  using assms by (cases r) (simp_all add: releases_def)

lemma releases_finish [simp]: "releases (events (finish e r)) = releases (events r)"
  by (cases r) (simp_all add: finish_def releases_def)

lemma releases_at_dispatch [simp]: "releases (trace (at_dispatch e a)) = (0, 0, 0)"
  by (simp add: at_dispatch_def releases_def)

lemma count_at_dispatch [simp]:
  "count_list (trace (at_dispatch e a)) Cancel = 0"
  "count_list (trace (at_dispatch e a)) ClientClose = 0"
  "count_list (trace (at_dispatch e a)) FileClose = 0"
  by (simp_all add: at_dispatch_def)

text \<open>
  Claim C1, as amended. A run that ends by returning from \<open>main\<close> (exit code 0) has called
  \<open>cancel\<close>, \<open>client.Close\<close> and \<open>file.Close\<close> exactly once each; a run that ends in a
  fatal error (\<open>log.Fatalln\<close>, exit code 1) has called none of them: \<open>os.Exit\<close> does not
  run the deferred calls. Both loaders.
\<close>

theorem releases_once_on_return:
  "releases (events (main e a)) = (if exit_code (main e a) = 0 then (1, 1, 1) else (0, 0, 0))
   \<and> releases (events (main_v1 e b)) = (if exit_code (main_v1 e b) = 0 then (1, 1, 1) else (0, 0, 0))"
proof
  show "releases (events (main e a)) = (if exit_code (main e a) = 0 then (1, 1, 1) else (0, 0, 0))"
  proof (cases "checks_pass a")
    case False
    then show ?thesis
      by (simp add: main_checks_fail releases_def)
  next
    case True
    show ?thesis
    proof (cases "storage_NewClient e (deadline a) (option_of a)")
      case (Some err)
      with True show ?thesis
        by (simp add: main_client_fails releases_def at_dispatch_def)
    next
      case None
      with True show ?thesis
        by (simp add: main_dispatch releases_of_wp [OF uploadFile_releases_wp]
            releases_of_wp [OF downloadFile_releases_wp])
          (simp add: releases_def at_dispatch_def)
    qed
  qed
next
  show "releases (events (main_v1 e b)) = (if exit_code (main_v1 e b) = 0 then (1, 1, 1) else (0, 0, 0))"
  proof (cases "FilePath_v1 b = [] \<or> BucketName_v1 b = [] \<or> ObjectPath_v1 b = [] \<or> KeyPath_v1 b = []")
    case True
    then show ?thesis
      by (simp add: main_v1_checks_fail releases_def)
  next
    case False
    then show ?thesis
      by (simp add: main_v1_run releases_of_wp [OF uploadFile_v1_releases_wp]) (simp add: releases_def)
  qed
qed


theorem releases_once_on_return_witness:
  "exit_code (main env_ok flags_upload) = 0
   \<and> releases (events (main env_ok flags_upload)) = (1, 1, 1)
   \<and> exit_code (main_v1 env_ok flags_v1) = 0
   \<and> releases (events (main_v1 env_ok flags_v1)) = (1, 1, 1)"
proof -
  have a: "exit_code (main env_ok flags_upload) = 0"
    by (simp add: main_dispatch checks_pass_def flags_upload_def env_ok_def EqualFold_Upload
        toLower_def isUpper_def uploadFile_def io_Copy_def)
  have b: "exit_code (main_v1 env_ok flags_v1) = 0"
    by (simp add: main_v1_run flags_v1_def env_ok_def uploadFile_v1_def io_Copy_def)
  show ?thesis
    using releases_once_on_return [of env_ok flags_upload flags_v1] a b by simp
qed

text \<open>
  As the claim states it, on every exit path, it fails: when the local file cannot be
  opened the client has been built, the process exits with code 1, and neither \<open>cancel\<close>
  nor \<open>client.Close\<close> has been called.
\<close>

theorem no_release_on_fatal:
  "exit_code (main env_unreadable flags_upload) = 1
   \<and> NewClient (WithCredentialsFile ''k.json'')
       \<in> set (events (main env_unreadable flags_upload))
   \<and> calls Cancel (main env_unreadable flags_upload) = 0
   \<and> calls ClientClose (main env_unreadable flags_upload) = 0"
  by (simp add: main_dispatch checks_pass_def flags_upload_def env_unreadable_def env_ok_def
      EqualFold_Upload toLower_def isUpper_def uploadFile_def calls_def at_dispatch_def
      option_of_def)

section \<open>Configuration checks\<close>

text \<open>
  Claim C3. Whenever a field that is mandatory without condition is empty (action, file,
  bucket or object in the dual-direction loader; file, bucket, object or key in the
  upload-only loader), the process exits with code 1 after exactly two lines, the
  greeting and the missing-parameter error: no context is made and no storage client is
  asked for before the exit, and the local files are as they were.
\<close>

theorem missing_mandatory_fatal:
  "(ActionType a = [] \<or> FilePath a = [] \<or> BucketName a = [] \<or> ObjectPath a = [] \<longrightarrow>
      main e a = Exit 1 \<lparr>trace = [LogAlways msg_hello, LogErr msg_mandatory], files = files0 e\<rparr>)
   \<and> (FilePath_v1 b = [] \<or> BucketName_v1 b = [] \<or> ObjectPath_v1 b = [] \<or> KeyPath_v1 b = [] \<longrightarrow>
      main_v1 e b = Exit 1 \<lparr>trace = [LogAlways msg_hello_v1, LogErr msg_mandatory], files = files0 e\<rparr>)"
  by (simp add: main_def main_v1_def Let_def Fatalln_def emit_def)

theorem missing_mandatory_fatal_witness:
  "main env_ok (flags_upload\<lparr>BucketName := []\<rparr>)
     = Exit 1 \<lparr>trace = [LogAlways msg_hello, LogErr msg_mandatory], files = files0 env_ok\<rparr>
   \<and> main_v1 env_ok (flags_v1\<lparr>KeyPath_v1 := []\<rparr>)
     = Exit 1 \<lparr>trace = [LogAlways msg_hello_v1, LogErr msg_mandatory], files = files0 env_ok\<rparr>"
  using missing_mandatory_fatal [of "flags_upload\<lparr>BucketName := []\<rparr>" env_ok
      "flags_v1\<lparr>KeyPath_v1 := []\<rparr>"]
  by (simp add: flags_upload_def flags_v1_def)

section \<open>The deadline of the session\<close>

text \<open>
  Claim C4, as amended. \<open>createContext\<close> uses 60 seconds when the timeout is at most 0,
  and \<open>t\<close> seconds when \<open>0 < t \<le> 9223372036\<close>, the values whose count of nanoseconds
  fits the signed 64 bits of a duration; timeouts 0 and 60 give the same deadline. The
  context is made with exactly this duration.
\<close>

theorem createContext_deadline:
  "(sint t \<le> 0 \<longrightarrow> fst (createContext t w) = Second * 60)
   \<and> (0 < sint t \<and> sint t \<le> 9223372036 \<longrightarrow>
        sint (fst (createContext t w)) = 1000000000 * sint t)
   \<and> fst (createContext 0 w) = fst (createContext 60 w)
   \<and> snd (createContext t w) = emit (WithTimeout (fst (createContext t w))) w"
  by (simp add: createContext_def Let_def sint_Second_mult)

theorem createContext_deadline_witness:
  "0 < sint (30 :: 64 word) \<and> sint (30 :: 64 word) \<le> 9223372036
   \<and> sint (fst (createContext 30 world0)) = 1000000000 * sint (30 :: 64 word)
   \<and> sint (0 :: 64 word) \<le> 0
   \<and> fst (createContext 0 world0) = Second * 60"
  using createContext_deadline [of 30 world0]
    createContext_deadline [of 0 world0]
  by simp

text \<open>
  As the claim states it, for every timeout, it fails: 9223372037 seconds are more
  nanoseconds than a duration holds, the product wraps around, and the deadline the
  context gets is negative.
\<close>

theorem createContext_overflow:
  "0 < sint (9223372037 :: 64 word)
   \<and> sint (fst (createContext 9223372037 world0))
       = - 9223372036709551616
   \<and> sint (fst (createContext 9223372037 world0))
       \<noteq> 1000000000 * sint (9223372037 :: 64 word)"
  by (simp add: createContext_def Let_def Second_def)


section \<open>The action\<close>

text \<open>
  Claim C8. When \<open>main\<close> reaches the action (the checks before the session pass and the
  client is built), every spelling of \<open>upload\<close> in upper and lower case runs the upload,
  every such spelling of \<open>download\<close> runs the download, and with any other value the
  process prints the wrong-action error and exits with code 1.
\<close>

theorem action_dispatch:
  assumes "checks_pass a" and "storage_NewClient e (deadline a) (option_of a) = None"
  shows "(map toLower (ActionType a) = ''upload'' \<longrightarrow>
            main e a =
              finish e
                (uploadFile e a \<lparr>ctx = deadline a, client = option_of a\<rparr> (FilePath a)
                   (BucketName a) (ObjectPath a) (ContentType a) (at_dispatch e a)))
       \<and> (map toLower (ActionType a) = ''download'' \<longrightarrow>
            main e a =
              finish e
                (downloadFile e a \<lparr>ctx = deadline a, client = option_of a\<rparr> (FilePath a)
                   (BucketName a) (ObjectPath a) (at_dispatch e a)))
       \<and> (map toLower (ActionType a) \<noteq> ''upload'' \<and> map toLower (ActionType a) \<noteq> ''download'' \<longrightarrow>
            main e a = Exit 1 (emit (LogErr msg_wrong_action) (at_dispatch e a)))"
  using assms
  by (simp add: main_dispatch EqualFold_Upload EqualFold_Download Fatalln_def)

theorem action_dispatch_witness:
  "checks_pass (flags_upload\<lparr>ActionType := ''UpLoAd''\<rparr>)
   \<and> map toLower ''UpLoAd'' = ''upload''
   \<and> main env_ok (flags_upload\<lparr>ActionType := ''UpLoAd''\<rparr>)
       = finish env_ok
           (uploadFile env_ok (flags_upload\<lparr>ActionType := ''UpLoAd''\<rparr>)
              \<lparr>ctx = Second * 60, client = WithCredentialsFile ''k.json''\<rparr> ''a.txt'' ''b'' ''o''
              ''text/plain'' (at_dispatch env_ok (flags_upload\<lparr>ActionType := ''UpLoAd''\<rparr>)))"
proof -
  have l: "map toLower ''UpLoAd'' = ''upload''"
    by code_simp
  have c: "checks_pass (flags_upload\<lparr>ActionType := ''UpLoAd''\<rparr>)"
    by (simp add: checks_pass_def flags_upload_def)
  have n: "storage_NewClient env_ok (deadline (flags_upload\<lparr>ActionType := ''UpLoAd''\<rparr>))
             (option_of (flags_upload\<lparr>ActionType := ''UpLoAd''\<rparr>)) = None"
    by (simp add: env_ok_def)
  have d: "deadline (flags_upload\<lparr>ActionType := ''UpLoAd''\<rparr>) = Second * 60"
    by (simp add: deadline_eq flags_upload_def)
  have "ActionType (flags_upload\<lparr>ActionType := ''UpLoAd''\<rparr>) = ''UpLoAd''"
    and "FilePath (flags_upload\<lparr>ActionType := ''UpLoAd''\<rparr>) = ''a.txt''"
    and "BucketName (flags_upload\<lparr>ActionType := ''UpLoAd''\<rparr>) = ''b''"
    and "ObjectPath (flags_upload\<lparr>ActionType := ''UpLoAd''\<rparr>) = ''o''"
    and "ContentType (flags_upload\<lparr>ActionType := ''UpLoAd''\<rparr>) = ''text/plain''"
    and "option_of (flags_upload\<lparr>ActionType := ''UpLoAd''\<rparr>) = WithCredentialsFile ''k.json''"
    by (simp_all add: flags_upload_def option_of_def)
  with action_dispatch [OF c n] l c d show ?thesis
    by simp
qed

text \<open>
  Claim C10. When the checks before the session pass and the action is neither
  \<open>upload\<close> nor \<open>download\<close> in any case: if the client is built, the run is the
  greeting, the key warning when it applies, the making of the context, the building
  of the client, the wrong-action error and exit code 1, in this order; if building
  the client fails, the wrong-action error is never printed. Either way the process
  exits without having called \<open>cancel\<close> or \<open>client.Close\<close>.
\<close>

theorem wrong_action_after_client:
  assumes "checks_pass a"
    and "\<not> EqualFold (ActionType a) Upload" and "\<not> EqualFold (ActionType a) Download"
  shows "(storage_NewClient e (deadline a) (option_of a) = None \<longrightarrow>
            main e a =
              Exit 1
                \<lparr>trace =
                   LogAlways msg_hello
                     # (if PublicRequest a \<and> KeyPath a \<noteq> [] then [LogWarn msg_key_discarded] else [])
                     @ [WithTimeout (deadline a), NewClient (option_of a), LogErr msg_wrong_action],
                 files = files0 e\<rparr>)
       \<and> (storage_NewClient e (deadline a) (option_of a) \<noteq> None \<longrightarrow>
            LogErr msg_wrong_action \<notin> set (events (main e a)))
       \<and> Cancel \<notin> set (events (main e a)) \<and> ClientClose \<notin> set (events (main e a))"
proof (cases "storage_NewClient e (deadline a) (option_of a)")
  case None
  with assms show ?thesis
    by (simp add: main_dispatch Fatalln_def emit_def at_dispatch_def)
next
  case (Some err)
  with assms show ?thesis
    by (simp add: main_client_fails at_dispatch_def msg_wrong_action_def msg_client_def)
qed

theorem wrong_action_after_client_witness:
  "checks_pass (flags_upload\<lparr>ActionType := ''delete''\<rparr>)
   \<and> \<not> EqualFold ''delete'' Upload \<and> \<not> EqualFold ''delete'' Download
   \<and> main env_ok (flags_upload\<lparr>ActionType := ''delete''\<rparr>)
       = Exit 1
           \<lparr>trace = [LogAlways msg_hello, WithTimeout (Second * 60),
                     NewClient (WithCredentialsFile ''k.json''), LogErr msg_wrong_action],
            files = Map.empty\<rparr>"
proof -
  have c: "checks_pass (flags_upload\<lparr>ActionType := ''delete''\<rparr>)"
    by (simp add: checks_pass_def flags_upload_def)
  have u: "\<not> EqualFold (ActionType (flags_upload\<lparr>ActionType := ''delete''\<rparr>)) Upload"
    by (simp add: EqualFold_Upload)
  have d: "\<not> EqualFold (ActionType (flags_upload\<lparr>ActionType := ''delete''\<rparr>)) Download"
    by (simp add: EqualFold_Download)
  have t: "deadline (flags_upload\<lparr>ActionType := ''delete''\<rparr>) = Second * 60"
    by (simp add: deadline_eq flags_upload_def)
  from wrong_action_after_client [OF c u d, of env_ok] c u d t show ?thesis
    by (simp add: flags_upload_def env_ok_def option_of_def)
qed


section \<open>Anonymous requests\<close>

lemma wp_final: "wp r (\<lambda>c. P) (\<lambda>x. P) \<Longrightarrow> P (final r)"
  by (cases r) simp_all

lemma uploadFile_NewClient:
  "filter isNewClient (events (uploadFile e a s f b ob c w)) = filter isNewClient (trace w)"
proof -
  have "wp (uploadFile e a s f b ob c w)
          (\<lambda>c w'. filter isNewClient (trace w') = filter isNewClient (trace w))
          (\<lambda>x w'. filter isNewClient (trace w') = filter isNewClient (trace w))"
    by (simp add: uploadFile_def wp_rules)
  then show ?thesis
    unfolding events_def by (rule wp_final)
qed

lemma downloadFile_NewClient:
  "filter isNewClient (events (downloadFile e a s f b ob w)) = filter isNewClient (trace w)"
proof -
  have "wp (downloadFile e a s f b ob w)
          (\<lambda>c w'. filter isNewClient (trace w') = filter isNewClient (trace w))
          (\<lambda>x w'. filter isNewClient (trace w') = filter isNewClient (trace w))"
    by (simp add: downloadFile_def wp_rules)
  then show ?thesis
    unfolding events_def by (rule wp_final)
qed

lemma filter_NewClient_finish [simp]:
  "filter isNewClient (events (finish e r)) = filter isNewClient (events r)"
  by (cases r) (simp_all add: finish_def)

lemma main_NewClient:
  "filter isNewClient (events (main e a)) = (if checks_pass a then [NewClient (option_of a)] else [])"
proof (cases "checks_pass a")
  case False
  then show ?thesis
    by (simp add: main_checks_fail)
next
  case True
  show ?thesis
  proof (cases "storage_NewClient e (deadline a) (option_of a)")
    case (Some err)
    with True show ?thesis
      by (simp add: main_client_fails at_dispatch_def)
  next
    case None
    with True show ?thesis
      by (simp add: main_dispatch uploadFile_NewClient downloadFile_NewClient at_dispatch_def)
  qed
qed

lemma main_public_KeyPath:
  assumes "PublicRequest a" and "k \<noteq> []" and "k' \<noteq> []"
  shows "main e (a\<lparr>KeyPath := k\<rparr>) = main e (a\<lparr>KeyPath := k'\<rparr>)"
proof -
  have u: "uploadFile e (a\<lparr>KeyPath := k\<rparr>) s f b ob c w = uploadFile e (a\<lparr>KeyPath := k'\<rparr>) s f b ob c w"
    for s f b ob c w
    by (simp add: uploadFile_def)
  have d: "downloadFile e (a\<lparr>KeyPath := k\<rparr>) s f b ob w = downloadFile e (a\<lparr>KeyPath := k'\<rparr>) s f b ob w"
    for s f b ob w
    by (simp add: downloadFile_def)
  have c: "checks_pass (a\<lparr>KeyPath := k\<rparr>) = checks_pass (a\<lparr>KeyPath := k'\<rparr>)"
    using assms by (simp add: checks_pass_def)
  have o: "option_of (a\<lparr>KeyPath := k\<rparr>) = option_of (a\<lparr>KeyPath := k'\<rparr>)"
    using assms by (simp add: option_of_def)
  have t: "deadline (a\<lparr>KeyPath := k\<rparr>) = deadline (a\<lparr>KeyPath := k'\<rparr>)"
    by (simp add: deadline_eq)
  have w: "at_dispatch e (a\<lparr>KeyPath := k\<rparr>) = at_dispatch e (a\<lparr>KeyPath := k'\<rparr>)"
    using assms by (simp add: at_dispatch_def o t)
  show ?thesis
  proof (cases "checks_pass (a\<lparr>KeyPath := k\<rparr>)")
    case False
    with c assms show ?thesis
      by (simp add: main_checks_fail)
  next
    case True
    show ?thesis
    proof (cases "storage_NewClient e (deadline (a\<lparr>KeyPath := k\<rparr>)) (option_of (a\<lparr>KeyPath := k\<rparr>))")
      case (Some err)
      then have "storage_NewClient e (deadline (a\<lparr>KeyPath := k'\<rparr>)) (option_of (a\<lparr>KeyPath := k'\<rparr>)) = Some err"
        by (simp add: o t)
      with Some True c show ?thesis
        by (simp add: main_client_fails w)
    next
      case None
      then have "storage_NewClient e (deadline (a\<lparr>KeyPath := k'\<rparr>)) (option_of (a\<lparr>KeyPath := k'\<rparr>)) = None"
        by (simp add: o t)
      with None True c show ?thesis
        by (simp add: main_dispatch w u d o t)
    qed
  qed
qed

lemma main_warns_key:
  assumes "PublicRequest a" and "KeyPath a \<noteq> []"
    and "ActionType a \<noteq> []" and "FilePath a \<noteq> []" and "BucketName a \<noteq> []" and "ObjectPath a \<noteq> []"
  shows "\<exists>rest. events (main e a) = [LogAlways msg_hello, LogWarn msg_key_discarded] @ rest"
proof -
  have c: "checks_pass a"
    using assms by (simp add: checks_pass_def)
  have u: "\<exists>es. events (uploadFile e a s f b ob c w) = trace w @ es" for s f b ob c w
  proof -
    have "wp (uploadFile e a s f b ob c w) (\<lambda>c w'. \<exists>es. trace w' = trace w @ es)
            (\<lambda>x w'. \<exists>es. trace w' = trace w @ es)"
      by (simp add: uploadFile_def wp_rules)
    then show ?thesis
      unfolding events_def by (rule wp_final)
  qed
  have d: "\<exists>es. events (downloadFile e a s f b ob w) = trace w @ es" for s f b ob w
  proof -
    have "wp (downloadFile e a s f b ob w) (\<lambda>c w'. \<exists>es. trace w' = trace w @ es)
            (\<lambda>x w'. \<exists>es. trace w' = trace w @ es)"
      by (simp add: downloadFile_def wp_rules)
    then show ?thesis
      unfolding events_def by (rule wp_final)
  qed
  have f: "\<exists>es. events (finish e r) = trace w @ es" if "\<exists>es. events r = trace w @ es" for r w
    using that by (cases r) (auto simp: finish_def)
  have "\<exists>es. events (main e a) = trace (at_dispatch e a) @ es"
  proof (cases "storage_NewClient e (deadline a) (option_of a)")
    case (Some err)
    with c show ?thesis
      by (simp add: main_client_fails)
  next
    case None
    with c show ?thesis
      by (simp add: main_dispatch f u d)
  qed
  with assms show ?thesis
    by (auto simp: at_dispatch_def)
qed

text \<open>
  Claim C2. With the public flag set and a key path given, the key path is never used:
  \<open>createClient\<close> asks for a client without authentication whatever the path is, no
  client is ever asked for with a credentials file, and two runs that differ in the
  (non-empty) key path only are the same run, event for event and file for file. When
  the mandatory flags are given, so that \<open>main\<close> gets past its first check, the run
  prints the warning right after the greeting and builds exactly one client, without
  authentication.
\<close>

theorem key_ignored_when_public:
  assumes "PublicRequest a" and "k \<noteq> []" and "k' \<noteq> []"
  shows "main e (a\<lparr>KeyPath := k\<rparr>) = main e (a\<lparr>KeyPath := k'\<rparr>)
       \<and> createClient e d True k w = createClient e d True k' w
       \<and> (\<forall>p. NewClient (WithCredentialsFile p) \<notin> set (events (main e (a\<lparr>KeyPath := k\<rparr>))))
       \<and> (ActionType a \<noteq> [] \<and> FilePath a \<noteq> [] \<and> BucketName a \<noteq> [] \<and> ObjectPath a \<noteq> [] \<longrightarrow>
            (\<exists>rest. events (main e (a\<lparr>KeyPath := k\<rparr>))
               = [LogAlways msg_hello, LogWarn msg_key_discarded] @ rest)
            \<and> filter isNewClient (events (main e (a\<lparr>KeyPath := k\<rparr>)))
               = [NewClient WithoutAuthentication])"
proof -
  have 1: "main e (a\<lparr>KeyPath := k\<rparr>) = main e (a\<lparr>KeyPath := k'\<rparr>)"
    using assms by (rule main_public_KeyPath)
  have 2: "createClient e d True k w = createClient e d True k' w"
    by (simp add: createClient_def)
  have n: "filter isNewClient (events (main e (a\<lparr>KeyPath := k\<rparr>)))
      = (if checks_pass (a\<lparr>KeyPath := k\<rparr>) then [NewClient WithoutAuthentication] else [])"
    using assms by (simp add: main_NewClient option_of_def)
  have 3: "NewClient (WithCredentialsFile p) \<notin> set (events (main e (a\<lparr>KeyPath := k\<rparr>)))" for p
  proof
    assume "NewClient (WithCredentialsFile p) \<in> set (events (main e (a\<lparr>KeyPath := k\<rparr>)))"
    then have "NewClient (WithCredentialsFile p)
        \<in> set (filter isNewClient (events (main e (a\<lparr>KeyPath := k\<rparr>))))"
      by simp
    then show False
      by (simp add: n split: if_splits)
  qed
  have 4: "\<exists>rest. events (main e (a\<lparr>KeyPath := k\<rparr>))
               = [LogAlways msg_hello, LogWarn msg_key_discarded] @ rest"
    if "ActionType a \<noteq> [] \<and> FilePath a \<noteq> [] \<and> BucketName a \<noteq> [] \<and> ObjectPath a \<noteq> []"
    using that assms by (intro main_warns_key) simp_all
  have 5: "filter isNewClient (events (main e (a\<lparr>KeyPath := k\<rparr>))) = [NewClient WithoutAuthentication]"
    if "ActionType a \<noteq> [] \<and> FilePath a \<noteq> [] \<and> BucketName a \<noteq> [] \<and> ObjectPath a \<noteq> []"
    using that assms by (simp add: n checks_pass_def)
  from 1 2 3 4 5 show ?thesis
    by blast
qed

theorem key_ignored_when_public_witness:
  "PublicRequest (flags_upload\<lparr>PublicRequest := True\<rparr>)
   \<and> main env_ok (flags_upload\<lparr>PublicRequest := True, KeyPath := ''k.json''\<rparr>)
       = main env_ok (flags_upload\<lparr>PublicRequest := True, KeyPath := ''other.json''\<rparr>)
   \<and> filter isNewClient (events (main env_ok (flags_upload\<lparr>PublicRequest := True, KeyPath := ''k.json''\<rparr>)))
       = [NewClient WithoutAuthentication]"
proof -
  have p: "PublicRequest (flags_upload\<lparr>PublicRequest := True\<rparr>)"
    by simp
  have m: "ActionType (flags_upload\<lparr>PublicRequest := True\<rparr>) \<noteq> []
      \<and> FilePath (flags_upload\<lparr>PublicRequest := True\<rparr>) \<noteq> []
      \<and> BucketName (flags_upload\<lparr>PublicRequest := True\<rparr>) \<noteq> []
      \<and> ObjectPath (flags_upload\<lparr>PublicRequest := True\<rparr>) \<noteq> []"
    by (simp add: flags_upload_def)
  from key_ignored_when_public [where a = "flags_upload\<lparr>PublicRequest := True\<rparr>"
      and k = "''k.json''" and k' = "''other.json''" and e = env_ok and d = 0 and w = world0, OF p]
    p m show ?thesis
    by auto
qed

section \<open>Extra checks: a missing object\<close>

lemma uploadFile_object_new:
  assumes "ExtraChecks a" and "bkt_Attrs e b = None" and "os_Open e f = Inr content"
    and "obj_Attrs e b ob = Inl ErrObjectNotExist"
  shows "\<exists>rest. events (uploadFile e a s f b ob c w)
     = trace w @ [FileOpen f, BucketAttrs b, ObjectAttrsCall b ob, LogWarn msg_object_new,
                  NewWriter b ob] @ rest"
proof -
  have "wp (uploadFile e a s f b ob c w)
          (\<lambda>c w'. \<exists>rest. trace w'
             = trace w @ [FileOpen f, BucketAttrs b, ObjectAttrsCall b ob, LogWarn msg_object_new,
                          NewWriter b ob] @ rest)
          (\<lambda>x w'. \<exists>rest. trace w'
             = trace w @ [FileOpen f, BucketAttrs b, ObjectAttrsCall b ob, LogWarn msg_object_new,
                          NewWriter b ob] @ rest)"
    using assms by (simp add: uploadFile_def wp_rules)
  then show ?thesis
    unfolding events_def by (rule wp_final)
qed

lemma uploadFile_object_error:
  assumes "ExtraChecks a" and "bkt_Attrs e b = None" and "os_Open e f = Inr content"
    and "obj_Attrs e b ob = Inl err" and "err \<noteq> ErrObjectNotExist"
  shows "uploadFile e a s f b ob c w
     = Fatalln (msg_object_info err)
         (emit (ObjectAttrsCall b ob) (emit (BucketAttrs b) (emit (FileOpen f) w)))"
  using assms by (simp add: uploadFile_def)

lemma downloadFile_object_missing:
  assumes "ExtraChecks a" and "bkt_Attrs e b = None" and "os_Create e f = None"
    and "obj_Attrs e b ob = Inl err"
  shows "exit_code (downloadFile e a s f b ob w) = 1
     \<and> (\<exists>pre. events (downloadFile e a s f b ob w)
           = pre @ [FileCreate f, BucketAttrs b, ObjectAttrsCall b ob,
                    LogErr (if err = ErrObjectNotExist then msg_object_missing
                            else msg_object_info err)])
     \<and> files (final (downloadFile e a s f b ob w)) f = Some []"
proof -
  have "wp (downloadFile e a s f b ob w)
          (\<lambda>c w'. c = 1
             \<and> (\<exists>pre. trace w'
                   = pre @ [FileCreate f, BucketAttrs b, ObjectAttrsCall b ob,
                            LogErr (if err = ErrObjectNotExist then msg_object_missing
                                    else msg_object_info err)])
             \<and> files w' f = Some [])
          (\<lambda>x w'. False)"
    using assms by (simp add: downloadFile_def wp_rules)
  then show ?thesis
    by (cases "downloadFile e a s f b ob w") (simp_all add: events_def)
qed

text \<open>
  Claim C5. With extra checks on and the bucket found, when the fetch of the object's
  attributes reports that the object does not exist, the upload prints a warning and
  goes on to open the write stream, while the download prints the object-does-not-exist
  error and exits with code 1, the created local file left empty. Any other error of
  that fetch is fatal in both: the cannot-fetch-object-info error, exit code 1.
\<close>

theorem missing_object_asymmetry:
  assumes "ExtraChecks a" and "bkt_Attrs e b = None"
  shows "(os_Open e f = Inr content \<longrightarrow>
            (obj_Attrs e b ob = Inl ErrObjectNotExist \<longrightarrow>
               (\<exists>rest. events (uploadFile e a s f b ob c w)
                  = trace w @ [FileOpen f, BucketAttrs b, ObjectAttrsCall b ob,
                               LogWarn msg_object_new, NewWriter b ob] @ rest))
          \<and> (\<forall>err. obj_Attrs e b ob = Inl err \<and> err \<noteq> ErrObjectNotExist \<longrightarrow>
               exit_code (uploadFile e a s f b ob c w) = 1
               \<and> events (uploadFile e a s f b ob c w)
                  = trace w @ [FileOpen f, BucketAttrs b, ObjectAttrsCall b ob,
                               LogErr (msg_object_info err)]))
       \<and> (os_Create e f = None \<longrightarrow>
            (obj_Attrs e b ob = Inl ErrObjectNotExist \<longrightarrow>
               exit_code (downloadFile e a s f b ob w) = 1
               \<and> (\<exists>pre. events (downloadFile e a s f b ob w)
                     = pre @ [FileCreate f, BucketAttrs b, ObjectAttrsCall b ob,
                              LogErr msg_object_missing])
               \<and> files (final (downloadFile e a s f b ob w)) f = Some [])
          \<and> (\<forall>err. obj_Attrs e b ob = Inl err \<and> err \<noteq> ErrObjectNotExist \<longrightarrow>
               exit_code (downloadFile e a s f b ob w) = 1
               \<and> (\<exists>pre. events (downloadFile e a s f b ob w)
                     = pre @ [FileCreate f, BucketAttrs b, ObjectAttrsCall b ob,
                              LogErr (msg_object_info err)])))"
  using assms uploadFile_object_new [of a e b f content ob s c w]
    uploadFile_object_error [of a e b f content ob _ s c w]
    downloadFile_object_missing [of a e b f ob _ s w]
  by (auto simp del: exit_code.simps)


theorem missing_object_asymmetry_witness:
  "ExtraChecks (flags_upload\<lparr>ExtraChecks := True\<rparr>) \<and> bkt_Attrs env_ok ''b'' = None
   \<and> os_Open env_ok ''a.txt'' = Inr [104, 105] \<and> os_Create env_ok ''out.txt'' = None
   \<and> obj_Attrs env_ok ''b'' ''o'' = Inl ErrObjectNotExist
   \<and> (\<exists>rest. events (uploadFile env_ok (flags_upload\<lparr>ExtraChecks := True\<rparr>)
                      \<lparr>ctx = Second * 60, client = WithoutAuthentication\<rparr> ''a.txt'' ''b'' ''o''
                      ''text/plain'' world0)
         = [FileOpen ''a.txt'', BucketAttrs ''b'', ObjectAttrsCall ''b'' ''o'',
            LogWarn msg_object_new, NewWriter ''b'' ''o''] @ rest)
   \<and> exit_code (downloadFile env_ok (flags_upload\<lparr>ExtraChecks := True\<rparr>)
                  \<lparr>ctx = Second * 60, client = WithoutAuthentication\<rparr> ''out.txt'' ''b'' ''o''
                  world0) = 1"
proof -
  have x: "ExtraChecks (flags_upload\<lparr>ExtraChecks := True\<rparr>)"
    by simp
  have b: "bkt_Attrs env_ok ''b'' = None"
    by (simp add: env_ok_def)
  have o: "os_Open env_ok ''a.txt'' = Inr [104, 105]" "os_Create env_ok ''out.txt'' = None"
    "obj_Attrs env_ok ''b'' ''o'' = Inl ErrObjectNotExist"
    by (simp_all add: env_ok_def)
  have t: "trace world0 = []"
    by (simp add: world0_def)
  from missing_object_asymmetry [OF x b, where f = "''a.txt''" and content = "[104, 105]"
      and ob = "''o''" and s = "\<lparr>ctx = Second * 60, client = WithoutAuthentication\<rparr>"
      and c = "''text/plain''" and w = world0]
    missing_object_asymmetry [OF x b, where f = "''out.txt''" and ob = "''o''"
      and s = "\<lparr>ctx = Second * 60, client = WithoutAuthentication\<rparr>" and w = world0]
    x b o t show ?thesis
    by simp
qed

section \<open>Download of an object that is not there\<close>

lemma downloadFile_reader_fails:
  assumes "\<not> ExtraChecks a" and "os_Create e f = None" and "obj_NewReader e b ob = Inl err"
    and "\<forall>n. CopyToFile n \<notin> set (trace w)"
  shows "exit_code (downloadFile e a s f b ob w) = 1
     \<and> (\<exists>pre. events (downloadFile e a s f b ob w)
           = pre @ [FileCreate f, NewReader b ob, LogErr (msg_reader err)])
     \<and> (\<forall>n. CopyToFile n \<notin> set (events (downloadFile e a s f b ob w)))
     \<and> files (final (downloadFile e a s f b ob w)) f = Some []"
proof -
  have "wp (downloadFile e a s f b ob w)
          (\<lambda>c w'. c = 1
             \<and> (\<exists>pre. trace w' = pre @ [FileCreate f, NewReader b ob, LogErr (msg_reader err)])
             \<and> (\<forall>n. CopyToFile n \<notin> set (trace w'))
             \<and> files w' f = Some [])
          (\<lambda>x w'. False)"
    using assms by (simp add: downloadFile_def wp_rules)
  then show ?thesis
    by (cases "downloadFile e a s f b ob w") (simp_all add: events_def)
qed

text \<open>
  Claim C6. A download without extra checks, with the local file created and the open of
  the remote read stream failing (as it does for an object that does not exist): the
  file is created before the stream is asked for, the process then prints the
  cannot-create-new-reader error and exits with code 1, nothing is ever copied into
  the file, and the file is left there, empty.
\<close>

theorem download_missing_object:
  assumes "checks_pass a" and "storage_NewClient e (deadline a) (option_of a) = None"
    and "map toLower (ActionType a) = ''download''" and "\<not> ExtraChecks a"
    and "os_Create e (FilePath a) = None"
    and "obj_NewReader e (BucketName a) (ObjectPath a) = Inl err"
  shows "exit_code (main e a) = 1
     \<and> (\<exists>pre. events (main e a)
           = pre @ [FileCreate (FilePath a), NewReader (BucketName a) (ObjectPath a),
                    LogErr (msg_reader err)])
     \<and> (\<forall>n. CopyToFile n \<notin> set (events (main e a)))
     \<and> files (final (main e a)) (FilePath a) = Some []"
proof -
  have m: "main e a
      = finish e (downloadFile e a \<lparr>ctx = deadline a, client = option_of a\<rparr> (FilePath a)
                    (BucketName a) (ObjectPath a) (at_dispatch e a))"
    using assms by (simp add: main_dispatch EqualFold_Upload EqualFold_Download)
  have n: "\<forall>n. CopyToFile n \<notin> set (trace (at_dispatch e a))"
    by (simp add: at_dispatch_def)
  have x: "exit_code (downloadFile e a \<lparr>ctx = deadline a, client = option_of a\<rparr> (FilePath a)
             (BucketName a) (ObjectPath a) (at_dispatch e a)) = 1"
    using downloadFile_reader_fails [OF assms(4-6) n] by blast
  then have f: "finish e (downloadFile e a \<lparr>ctx = deadline a, client = option_of a\<rparr> (FilePath a)
             (BucketName a) (ObjectPath a) (at_dispatch e a))
        = downloadFile e a \<lparr>ctx = deadline a, client = option_of a\<rparr> (FilePath a)
             (BucketName a) (ObjectPath a) (at_dispatch e a)"
    by (cases "downloadFile e a \<lparr>ctx = deadline a, client = option_of a\<rparr> (FilePath a)
             (BucketName a) (ObjectPath a) (at_dispatch e a)") simp_all
  show ?thesis
    using downloadFile_reader_fails [OF assms(4-6) n] unfolding m f by blast
qed

theorem download_missing_object_witness:
  "checks_pass flags_download
   \<and> storage_NewClient env_old_file (deadline flags_download) (option_of flags_download) = None
   \<and> map toLower (ActionType flags_download) = ''download'' \<and> \<not> ExtraChecks flags_download
   \<and> os_Create env_old_file ''out.txt'' = None
   \<and> obj_NewReader env_old_file ''b'' ''missing'' = Inl ErrObjectNotExist
   \<and> files0 env_old_file ''out.txt'' = Some [1, 2, 3]
   \<and> exit_code (main env_old_file flags_download) = 1
   \<and> files (final (main env_old_file flags_download)) ''out.txt'' = Some []"
proof -
  have c: "checks_pass flags_download"
    by (simp add: checks_pass_def flags_download_def)
  have n: "storage_NewClient env_old_file (deadline flags_download) (option_of flags_download) = None"
    by (simp add: env_old_file_def env_ok_def)
  have l: "map toLower (ActionType flags_download) = ''download''"
    by (simp add: flags_download_def toLower_def isUpper_def)
  have x: "\<not> ExtraChecks flags_download"
    by (simp add: flags_download_def)
  have o: "os_Create env_old_file (FilePath flags_download) = None"
    by (simp add: env_old_file_def env_ok_def)
  have r: "obj_NewReader env_old_file (BucketName flags_download) (ObjectPath flags_download)
      = Inl ErrObjectNotExist"
    by (simp add: env_old_file_def env_ok_def)
  have p: "FilePath flags_download = ''out.txt''" "BucketName flags_download = ''b''"
    "ObjectPath flags_download = ''missing''"
    by (simp_all add: flags_download_def)
  have z: "files0 env_old_file ''out.txt'' = Some [1, 2, 3]"
    by (simp add: env_old_file_def)
  from download_missing_object [OF c n l x o r] c n l x o r z show ?thesis
    by (simp add: p)
qed


section \<open>The content type of the write stream\<close>




lemma filter_writer_finish [simp]:
  "filter writerEvent (events (finish e r)) = filter writerEvent (events r)"
  by (cases r) (simp_all add: finish_def)





section \<open>The bytes an upload reports\<close>

lemma uploadFile_bytes:
  assumes "\<not> ExtraChecks a" and "os_Open e f = Inr content"
    and "exit_code (uploadFile e a s f b ob c w) = 0"
  shows "\<exists>w' pre. uploadFile e a s f b ob c w = Ret () w'
     \<and> trace w' = pre @ [CopyToWriter (length content), WriterClose,
                         LogInfo (msg_uploaded_bytes (int (length content))),
                         WriterClose, FileClose, ClientClose, Cancel]"
proof -
  have "wp (uploadFile e a s f b ob c w) (\<lambda>c w'. c = 1)
          (\<lambda>x w'. \<exists>pre. trace w'
             = pre @ [CopyToWriter (length content), WriterClose,
                      LogInfo (msg_uploaded_bytes (int (length content))),
                      WriterClose, FileClose, ClientClose, Cancel])"
    using assms(1,2) by (simp add: uploadFile_def wp_rules io_Copy_ok)
  with assms(3) show ?thesis
    by (cases "uploadFile e a s f b ob c w") simp_all
qed

lemma uploadFile_v1_bytes:
  assumes "\<not> ExtraChecks_v1 a" and "os_Open e f = Inr content"
    and "exit_code (uploadFile_v1 e a f c b ob k w) = 0"
  shows "\<exists>w' pre. uploadFile_v1 e a f c b ob k w = Ret () w'
     \<and> trace w' = pre @ [CopyToWriter (length content), WriterClose,
                         LogInfo (msg_uploaded_bytes (int (length content))),
                         WriterClose, FileClose, ClientClose, Cancel]"
proof -
  have "wp (uploadFile_v1 e a f c b ob k w) (\<lambda>c w'. c = 1)
          (\<lambda>x w'. \<exists>pre. trace w'
             = pre @ [CopyToWriter (length content), WriterClose,
                      LogInfo (msg_uploaded_bytes (int (length content))),
                      WriterClose, FileClose, ClientClose, Cancel])"
    using assms(1,2) by (simp add: uploadFile_v1_def wp_rules io_Copy_ok)
  with assms(3) show ?thesis
    by (cases "uploadFile_v1 e a f c b ob k w") simp_all
qed

lemma events_finish_ok:
  assumes "\<exists>w' pre. r = Ret () w' \<and> trace w' = pre @ es"
  shows "\<exists>pre. events (finish e r) = pre @ es @ [LogAlways (msg_bye (elapsed e))]"
  using assms by auto

lemma upload_run_events:
  "(exit_code (main e a) = 0 \<and> EqualFold (ActionType a) Upload \<and> \<not> ExtraChecks a
      \<and> os_Open e (FilePath a) = Inr content \<longrightarrow>
      (\<exists>pre. events (main e a)
         = pre @ [CopyToWriter (length content), WriterClose,
                  LogInfo (msg_uploaded_bytes (int (length content))),
                  WriterClose, FileClose, ClientClose, Cancel,
                  LogAlways (msg_bye (elapsed e))]))
   \<and> (exit_code (main_v1 e b) = 0 \<and> \<not> ExtraChecks_v1 b
      \<and> os_Open e (FilePath_v1 b) = Inr content \<longrightarrow>
      (\<exists>pre. events (main_v1 e b)
         = pre @ [CopyToWriter (length content), WriterClose,
                  LogInfo (msg_uploaded_bytes (int (length content))),
                  WriterClose, FileClose, ClientClose, Cancel,
                  LogAlways (msg_bye (elapsed e))]))"
proof (intro conjI impI)
  assume h: "exit_code (main e a) = 0 \<and> EqualFold (ActionType a) Upload \<and> \<not> ExtraChecks a
      \<and> os_Open e (FilePath a) = Inr content"
  have c: "checks_pass a"
  proof (rule ccontr)
    assume "\<not> checks_pass a"
    with h show False
      by (simp add: main_checks_fail)
  qed
  have n: "storage_NewClient e (deadline a) (option_of a) = None"
  proof (cases "storage_NewClient e (deadline a) (option_of a)")
    case (Some err)
    with c h show ?thesis
      by (simp add: main_client_fails)
  qed simp
  have m: "main e a
      = finish e (uploadFile e a \<lparr>ctx = deadline a, client = option_of a\<rparr> (FilePath a)
                    (BucketName a) (ObjectPath a) (ContentType a) (at_dispatch e a))"
    using c n h by (simp add: main_dispatch)
  with h have x: "exit_code (uploadFile e a \<lparr>ctx = deadline a, client = option_of a\<rparr> (FilePath a)
                    (BucketName a) (ObjectPath a) (ContentType a) (at_dispatch e a)) = 0"
    by simp
  from events_finish_ok [OF uploadFile_bytes [OF _ _ x], of content e] h
  show "\<exists>pre. events (main e a)
         = pre @ [CopyToWriter (length content), WriterClose,
                  LogInfo (msg_uploaded_bytes (int (length content))),
                  WriterClose, FileClose, ClientClose, Cancel,
                  LogAlways (msg_bye (elapsed e))]"
    unfolding m by simp
next
  assume h: "exit_code (main_v1 e b) = 0 \<and> \<not> ExtraChecks_v1 b
      \<and> os_Open e (FilePath_v1 b) = Inr content"
  have c: "\<not> (FilePath_v1 b = [] \<or> BucketName_v1 b = [] \<or> ObjectPath_v1 b = [] \<or> KeyPath_v1 b = [])"
  proof
    assume "FilePath_v1 b = [] \<or> BucketName_v1 b = [] \<or> ObjectPath_v1 b = [] \<or> KeyPath_v1 b = []"
    with h show False
      by (simp add: main_v1_checks_fail)
  qed
  then have m: "main_v1 e b
      = finish e (uploadFile_v1 e b (FilePath_v1 b) (ContentType_v1 b) (BucketName_v1 b)
                    (ObjectPath_v1 b) (KeyPath_v1 b)
                    \<lparr>trace = [LogAlways msg_hello_v1], files = files0 e\<rparr>)"
    by (simp add: main_v1_run)
  with h have x: "exit_code (uploadFile_v1 e b (FilePath_v1 b) (ContentType_v1 b) (BucketName_v1 b)
                    (ObjectPath_v1 b) (KeyPath_v1 b)
                    \<lparr>trace = [LogAlways msg_hello_v1], files = files0 e\<rparr>) = 0"
    by simp
  from events_finish_ok [OF uploadFile_v1_bytes [OF _ _ x], of content e] h
  show "\<exists>pre. events (main_v1 e b)
         = pre @ [CopyToWriter (length content), WriterClose,
                  LogInfo (msg_uploaded_bytes (int (length content))),
                  WriterClose, FileClose, ClientClose, Cancel,
                  LogAlways (msg_bye (elapsed e))]"
    unfolding m by simp
qed

subsection \<open>The decimal rendering of the count\<close>

lemma digitChar_digit: "digitChar d \<in> set ''0123456789''"
  by (simp add: digitChar_def)

lemma digitValue_digitChar: "d < 10 \<Longrightarrow> digitValue (digitChar d) = d"
  by (simp add: digitChar_def digitValue_def)

lemma digitChar_zero: "d < 10 \<Longrightarrow> digitChar d = CHR ''0'' \<longleftrightarrow> d = 0"
  by (simp add: digitChar_def)

lemma digitChar_digitValue: "c \<in> set ''0123456789'' \<Longrightarrow> digitChar (digitValue c) = c"
  by (auto simp add: digitChar_def digitValue_def)

lemma digitValue_less: "c \<in> set ''0123456789'' \<Longrightarrow> digitValue c < 10"
  by (auto simp add: digitValue_def)

lemma decimalValue_snoc: "decimalValue (ds @ [c]) = 10 * decimalValue ds + digitValue c"
  by (simp add: decimalValue_def)

lemma decimalValue_single: "decimalValue [c] = digitValue c"
  by (simp add: decimalValue_def)

lemma FormatUint_not_empty: "FormatUint n \<noteq> []"
  by (subst FormatUint.simps) simp

lemma FormatUint_digits: "set (FormatUint n) \<subseteq> set ''0123456789''"
proof (induction n rule: FormatUint.induct)
  case (1 n)
  show ?case
  proof (cases "n < 10")
    case True
    then show ?thesis
      using digitChar_digit [of n] by (subst FormatUint.simps) simp
  next
    case False
    with 1 have "set (FormatUint (n div 10)) \<subseteq> set ''0123456789''"
      by simp
    with False show ?thesis
      using digitChar_digit [of "n mod 10"] by (subst FormatUint.simps) simp
  qed
qed

lemma decimalValue_FormatUint: "decimalValue (FormatUint n) = n"
proof (induction n rule: FormatUint.induct)
  case (1 n)
  show ?case
  proof (cases "n < 10")
    case True
    then show ?thesis
      by (subst FormatUint.simps) (simp add: decimalValue_single digitValue_digitChar)
  next
    case False
    with 1 have "decimalValue (FormatUint (n div 10)) = n div 10"
      by simp
    with False show ?thesis
      by (subst FormatUint.simps) (simp add: decimalValue_snoc digitValue_digitChar)
  qed
qed

lemma FormatUint_no_leading_zero: "FormatUint n = ''0'' \<or> hd (FormatUint n) \<noteq> CHR ''0''"
proof (induction n rule: FormatUint.induct)
  case (1 n)
  show ?case
  proof (cases "n < 10")
    case True
    then show ?thesis
      by (subst FormatUint.simps, subst (2) FormatUint.simps) (auto simp add: digitChar_zero)
  next
    case False
    then have "0 < n div 10"
      by simp
    then have "FormatUint (n div 10) \<noteq> ''0''"
      using decimalValue_FormatUint [of "n div 10"]
      by (auto simp add: decimalValue_single digitValue_def)
    with 1 False have "hd (FormatUint (n div 10)) \<noteq> CHR ''0''"
      by simp
    with False show ?thesis
      by (subst (2) FormatUint.simps) (simp add: FormatUint_not_empty)
  qed
qed

lemma FormatInt_nat: "FormatInt (int n) = FormatUint n"
  by (simp add: FormatInt_def)

text \<open>
  A number has one decimal numeral without a leading zero, and \<open>FormatUint\<close> gives it.
\<close>

lemma decimal_unique:
  assumes "ds \<noteq> []" and "set ds \<subseteq> set ''0123456789''"
    and "ds = ''0'' \<or> hd ds \<noteq> CHR ''0''"
  shows "FormatUint (decimalValue ds) = ds"
  using assms
proof (induction ds rule: rev_induct)
  case Nil
  then show ?case by simp
next
  case (snoc c xs)
  then have d: "c \<in> set ''0123456789''"
    by simp
  show ?case
  proof (cases "xs = []")
    case True
    with d show ?thesis
      by (subst FormatUint.simps)
        (simp only: append_Nil decimalValue_single digitValue_less digitChar_digitValue if_True)
  next
    case False
    with snoc.prems have h: "hd xs \<noteq> CHR ''0''"
      by auto
    from snoc.prems have "set xs \<subseteq> set ''0123456789''"
      by simp
    with False h snoc.IH have i: "FormatUint (decimalValue xs) = xs"
      by simp
    have "decimalValue xs \<noteq> 0"
    proof
      assume "decimalValue xs = 0"
      with i have "xs = FormatUint 0"
        by simp
      then have "xs = ''0''"
        by (simp add: FormatUint.simps digitChar_def)
      with h show False
        by simp
    qed
    then have "\<not> 10 * decimalValue xs + digitValue c < 10"
      by simp
    moreover have "(10 * decimalValue xs + digitValue c) div 10 = decimalValue xs"
      using digitValue_less [OF d] by simp
    moreover have "(10 * decimalValue xs + digitValue c) mod 10 = digitValue c"
      using digitValue_less [OF d] by simp
    ultimately show ?thesis
      using i digitChar_digitValue [OF d]
      by (subst FormatUint.simps) (simp only: decimalValue_snoc if_False)
  qed
qed

lemma msg_uploaded_bytes_text:
  "msg_uploaded_bytes (int n)
     = ''SUCCESS: Object uploaded to GCP Bucket. (Written Bytes: '' @ FormatUint n @ '')''"
  by (simp only: msg_uploaded_bytes_def FormatInt_nat)

text \<open>
  Claim C9. A run of the upload that ends with exit code 0, with extra checks off, on a
  local file of \<open>N\<close> bytes: the copy into the write stream moved \<open>N\<close> bytes, and the
  success line is the text \<open>SUCCESS: Object uploaded to GCP Bucket. (Written Bytes: \<close>,
  then the decimal numeral of \<open>N\<close>, then \<open>)\<close>. The numeral is not empty, made of the
  digits \<open>0\<close> to \<open>9\<close>, without a leading zero unless it is \<open>0\<close>, and its value is \<open>N\<close>. The
  run ends with the copy, the close of the stream, the success line, the deferred calls and
  the closing line. Both loaders.
\<close>

theorem upload_reports_file_size:
  "(exit_code (main e a) = 0 \<and> EqualFold (ActionType a) Upload \<and> \<not> ExtraChecks a
      \<and> os_Open e (FilePath a) = Inr content \<longrightarrow>
      (\<exists>pre ds. events (main e a)
         = pre @ [CopyToWriter (length content), WriterClose,
                  LogInfo (''SUCCESS: Object uploaded to GCP Bucket. (Written Bytes: ''
                           @ ds @ '')''),
                  WriterClose, FileClose, ClientClose, Cancel,
                  LogAlways (msg_bye (elapsed e))]
         \<and> ds \<noteq> [] \<and> set ds \<subseteq> set ''0123456789''
         \<and> (ds = ''0'' \<or> hd ds \<noteq> CHR ''0'')
         \<and> decimalValue ds = length content))
   \<and> (exit_code (main_v1 e b) = 0 \<and> \<not> ExtraChecks_v1 b
      \<and> os_Open e (FilePath_v1 b) = Inr content \<longrightarrow>
      (\<exists>pre ds. events (main_v1 e b)
         = pre @ [CopyToWriter (length content), WriterClose,
                  LogInfo (''SUCCESS: Object uploaded to GCP Bucket. (Written Bytes: ''
                           @ ds @ '')''),
                  WriterClose, FileClose, ClientClose, Cancel,
                  LogAlways (msg_bye (elapsed e))]
         \<and> ds \<noteq> [] \<and> set ds \<subseteq> set ''0123456789''
         \<and> (ds = ''0'' \<or> hd ds \<noteq> CHR ''0'')
         \<and> decimalValue ds = length content))"
proof -
  let ?ds = "FormatUint (length content)"
  have r: "?ds \<noteq> [] \<and> set ?ds \<subseteq> set ''0123456789''
         \<and> (?ds = ''0'' \<or> hd ?ds \<noteq> CHR ''0'')
         \<and> decimalValue ?ds = length content"
    using FormatUint_not_empty [of "length content"] FormatUint_digits [of "length content"]
      FormatUint_no_leading_zero [of "length content"]
      decimalValue_FormatUint [of "length content"]
    by (intro conjI)
  show ?thesis
  proof (intro conjI impI)
    assume "exit_code (main e a) = 0 \<and> EqualFold (ActionType a) Upload \<and> \<not> ExtraChecks a
      \<and> os_Open e (FilePath a) = Inr content"
    with upload_run_events [of e a content]
    obtain pre where "events (main e a)
         = pre @ [CopyToWriter (length content), WriterClose,
                  LogInfo (msg_uploaded_bytes (int (length content))),
                  WriterClose, FileClose, ClientClose, Cancel,
                  LogAlways (msg_bye (elapsed e))]"
      by blast
    with r show "\<exists>pre ds. events (main e a)
         = pre @ [CopyToWriter (length content), WriterClose,
                  LogInfo (''SUCCESS: Object uploaded to GCP Bucket. (Written Bytes: ''
                           @ ds @ '')''),
                  WriterClose, FileClose, ClientClose, Cancel,
                  LogAlways (msg_bye (elapsed e))]
         \<and> ds \<noteq> [] \<and> set ds \<subseteq> set ''0123456789''
         \<and> (ds = ''0'' \<or> hd ds \<noteq> CHR ''0'')
         \<and> decimalValue ds = length content"
      unfolding msg_uploaded_bytes_text by blast
  next
    assume "exit_code (main_v1 e b) = 0 \<and> \<not> ExtraChecks_v1 b
      \<and> os_Open e (FilePath_v1 b) = Inr content"
    with upload_run_events [of e _ content b]
    obtain pre where "events (main_v1 e b)
         = pre @ [CopyToWriter (length content), WriterClose,
                  LogInfo (msg_uploaded_bytes (int (length content))),
                  WriterClose, FileClose, ClientClose, Cancel,
                  LogAlways (msg_bye (elapsed e))]"
      by blast
    with r show "\<exists>pre ds. events (main_v1 e b)
         = pre @ [CopyToWriter (length content), WriterClose,
                  LogInfo (''SUCCESS: Object uploaded to GCP Bucket. (Written Bytes: ''
                           @ ds @ '')''),
                  WriterClose, FileClose, ClientClose, Cancel,
                  LogAlways (msg_bye (elapsed e))]
         \<and> ds \<noteq> [] \<and> set ds \<subseteq> set ''0123456789''
         \<and> (ds = ''0'' \<or> hd ds \<noteq> CHR ''0'')
         \<and> decimalValue ds = length content"
      unfolding msg_uploaded_bytes_text by blast
  qed
qed


theorem upload_reports_file_size_witness:
  "exit_code (main env_13 flags_upload) = 0 \<and> EqualFold (ActionType flags_upload) Upload
   \<and> \<not> ExtraChecks flags_upload
   \<and> os_Open env_13 (FilePath flags_upload)
       = Inr [72, 101, 108, 108, 111, 44, 32, 119, 111, 114, 108, 100, 10]
   \<and> exit_code (main_v1 env_13 flags_v1) = 0 \<and> \<not> ExtraChecks_v1 flags_v1
   \<and> os_Open env_13 (FilePath_v1 flags_v1)
       = Inr [72, 101, 108, 108, 111, 44, 32, 119, 111, 114, 108, 100, 10]
   \<and> (\<exists>pre. events (main env_13 flags_upload)
         = pre @ [CopyToWriter 13, WriterClose,
                  LogInfo ''SUCCESS: Object uploaded to GCP Bucket. (Written Bytes: 13)'',
                  WriterClose, FileClose, ClientClose, Cancel, LogAlways (msg_bye ''0.1'')])
   \<and> (\<exists>pre. events (main_v1 env_13 flags_v1)
         = pre @ [CopyToWriter 13, WriterClose,
                  LogInfo ''SUCCESS: Object uploaded to GCP Bucket. (Written Bytes: 13)'',
                  WriterClose, FileClose, ClientClose, Cancel, LogAlways (msg_bye ''0.1'')])"
proof -
  let ?content = "[72, 101, 108, 108, 111, 44, 32, 119, 111, 114, 108, 100, 10]"
  have a: "exit_code (main env_13 flags_upload) = 0"
    by (simp add: main_dispatch checks_pass_def flags_upload_def env_13_def env_ok_def
        EqualFold_Upload toLower_def isUpper_def uploadFile_def io_Copy_def)
  have b: "exit_code (main_v1 env_13 flags_v1) = 0"
    by (simp add: main_v1_run flags_v1_def env_13_def env_ok_def uploadFile_v1_def io_Copy_def)
  have u: "EqualFold (ActionType flags_upload) Upload"
    by (simp add: EqualFold_Upload flags_upload_def toLower_def isUpper_def)
  have x: "\<not> ExtraChecks flags_upload" "\<not> ExtraChecks_v1 flags_v1"
    by (simp_all add: flags_upload_def flags_v1_def)
  have o: "os_Open env_13 (FilePath flags_upload) = Inr ?content"
    "os_Open env_13 (FilePath_v1 flags_v1) = Inr ?content"
    by (simp_all add: env_13_def)
  have l: "elapsed env_13 = ''0.1''"
    by (simp add: env_13_def env_ok_def)
  have n: "length ?content = 13"
    by simp
  have f: "FormatUint 13 = ''13''"
    by (simp add: FormatUint.simps digitChar_def)
  have t: "ds = ''13''" if "ds \<noteq> []" and "set ds \<subseteq> set ''0123456789''"
    and "ds = ''0'' \<or> hd ds \<noteq> CHR ''0''" and "decimalValue ds = 13" for ds
    using decimal_unique [OF that(1-3)] that(4) f by simp
  note c = upload_reports_file_size [of env_13 flags_upload ?content flags_v1, unfolded n l]
  from c a u x o obtain pre ds where "events (main env_13 flags_upload)
         = pre @ [CopyToWriter 13, WriterClose,
                  LogInfo (''SUCCESS: Object uploaded to GCP Bucket. (Written Bytes: ''
                           @ ds @ '')''),
                  WriterClose, FileClose, ClientClose, Cancel, LogAlways (msg_bye ''0.1'')]"
    and "ds \<noteq> []" and "set ds \<subseteq> set ''0123456789''"
    and "ds = ''0'' \<or> hd ds \<noteq> CHR ''0''" and "decimalValue ds = 13"
    by blast
  then have p: "\<exists>pre. events (main env_13 flags_upload)
         = pre @ [CopyToWriter 13, WriterClose,
                  LogInfo ''SUCCESS: Object uploaded to GCP Bucket. (Written Bytes: 13)'',
                  WriterClose, FileClose, ClientClose, Cancel, LogAlways (msg_bye ''0.1'')]"
    using t [of ds] by simp
  from c b x o obtain pre ds where "events (main_v1 env_13 flags_v1)
         = pre @ [CopyToWriter 13, WriterClose,
                  LogInfo (''SUCCESS: Object uploaded to GCP Bucket. (Written Bytes: ''
                           @ ds @ '')''),
                  WriterClose, FileClose, ClientClose, Cancel, LogAlways (msg_bye ''0.1'')]"
    and "ds \<noteq> []" and "set ds \<subseteq> set ''0123456789''"
    and "ds = ''0'' \<or> hd ds \<noteq> CHR ''0''" and "decimalValue ds = 13"
    by blast
  then have q: "\<exists>pre. events (main_v1 env_13 flags_v1)
         = pre @ [CopyToWriter 13, WriterClose,
                  LogInfo ''SUCCESS: Object uploaded to GCP Bucket. (Written Bytes: 13)'',
                  WriterClose, FileClose, ClientClose, Cancel, LogAlways (msg_bye ''0.1'')]"
    using t [of ds] by simp
  from a b u x o p q show ?thesis
    by (intro conjI)
qed

end
